theory Spec2Isabelle
  imports
    Complex_Main
    "HOL-Library.AList"
    "HOL-Library.Char_ord"
    "HOL-Library.List_Lexorder"
    "HOL-Library.Log_Nat"
begin

section \<open>Python values\<close>

text \<open>
  The collector (\<^verbatim>\<open>server/app.py\<close>) works on the value that the JSON decoder hands it,
  the agent (\<^verbatim>\<open>agent/agent.py\<close>) on text read from files and commands. Both are Python,
  so the model starts with the Python values and built-ins the two files use.

  \<^item> An \<^verbatim>\<open>int\<close> is unbounded: \<open>int\<close>.
  \<^item> A \<^verbatim>\<open>str\<close> is a \<open>string\<close>; a character stands for the code point of the same
    number, so the model covers the strings whose code points are below 256.
  \<^item> A \<^verbatim>\<open>float\<close> is an IEEE-754 binary64 value: a finite value is given by the rational
    it denotes, the negative zero, the two infinities and NaN are constructors of their
    own. \<open>Finite q\<close> is a float only when \<open>q\<close> is representable; the operations below
    return representable values on representable arguments.
  \<^item> An exception is a value of \<open>py_exc\<close>, and a function that can raise returns
    \<open>py_exc + 'a\<close>.
  \<^item> Resource limits of the interpreter (memory, the optional limit on the number of
    digits in conversions between \<^verbatim>\<open>int\<close> and \<^verbatim>\<open>str\<close>) are not part of the model.
\<close>

datatype py_exc =
    TypeError
  | ValueError
  | OverflowError
  | KeyError
  | IndexError
  | AttributeError
  | ZeroDivisionError
  | OSError

datatype pyfloat = Finite rat | NegZero | PosInf | NegInf | NaN

datatype json =
    JNull
  | JBool bool
  | JInt int
  | JFloat pyfloat
  | JStr string
  | JArr "json list"
  | JObj "(string \<times> json) list"

subsection \<open>Text\<close>

text \<open>\<^verbatim>\<open>str(n)\<close> and \<^verbatim>\<open>f"{n}"\<close> for an \<^verbatim>\<open>int\<close>: decimal digits, a minus sign when negative.\<close>

definition digit_char :: "nat \<Rightarrow> char" where
  "digit_char n = ''0123456789'' ! n"

fun show_nat :: "nat \<Rightarrow> string" where
  "show_nat n = (if n < 10 then [digit_char n] else show_nat (n div 10) @ [digit_char (n mod 10)])"

declare show_nat.simps [simp del]

definition show_int :: "int \<Rightarrow> string" where
  "show_int i = (if i < 0 then CHR ''-'' # show_nat (nat (- i)) else show_nat (nat i))"

text \<open>
  White space as \<^verbatim>\<open>str.strip()\<close> and \<^verbatim>\<open>str.split()\<close> see it (code points 9 to 13, 28 to 32,
  133 and 160), and as \<^verbatim>\<open>int(s)\<close> sees it: the same without 28 to 31.
\<close>

definition int_space :: "char \<Rightarrow> bool" where
  "int_space c \<longleftrightarrow> c \<in> set [CHR 0x09, CHR 0x0A, CHR 0x0B, CHR 0x0C, CHR 0x0D, CHR 0x20, CHR 0x85, CHR 0xA0]"

definition py_space :: "char \<Rightarrow> bool" where
  "py_space c \<longleftrightarrow> int_space c \<or> c \<in> set [CHR 0x1C, CHR 0x1D, CHR 0x1E, CHR 0x1F]"

definition strip_with :: "(char \<Rightarrow> bool) \<Rightarrow> string \<Rightarrow> string" where
  "strip_with P s = rev (dropWhile P (rev (dropWhile P s)))"

definition py_strip :: "string \<Rightarrow> string" where
  "py_strip s = strip_with py_space s"

text \<open>\<^verbatim>\<open>s.split()\<close>: the maximal runs of characters that are not white space.\<close>

fun split_acc :: "string \<Rightarrow> string \<Rightarrow> string list" where
  "split_acc [] w = (if w = [] then [] else [w])"
| "split_acc (c # cs) w =
     (if py_space c then (if w = [] then split_acc cs [] else w # split_acc cs [])
      else split_acc cs (w @ [c]))"

definition py_split :: "string \<Rightarrow> string list" where
  "py_split s = split_acc s []"

text \<open>
  \<^verbatim>\<open>int(s)\<close> for a \<^verbatim>\<open>str\<close>, base ten: white space around, an optional sign, then digits, where
  one underscore may stand between two digits. \<open>None\<close> is the \<^verbatim>\<open>ValueError\<close>.
\<close>

definition digit_val :: "char \<Rightarrow> nat option" where
  "digit_val c = map_of (zip ''0123456789'' [0, 1, 2, 3, 4, 5, 6, 7, 8, 9]) c"

fun parse_digits :: "string \<Rightarrow> nat \<Rightarrow> nat option" where
  "parse_digits [] acc = Some acc"
| "parse_digits (c # cs) acc =
     (if c = CHR ''_'' then
        (case cs of
           [] \<Rightarrow> None
         | d # ds \<Rightarrow> (case digit_val d of None \<Rightarrow> None | Some v \<Rightarrow> parse_digits ds (acc * 10 + v)))
      else (case digit_val c of None \<Rightarrow> None | Some v \<Rightarrow> parse_digits cs (acc * 10 + v)))"

definition parse_nat :: "string \<Rightarrow> nat option" where
  "parse_nat s =
     (case s of
        [] \<Rightarrow> None
      | c # cs \<Rightarrow> (case digit_val c of None \<Rightarrow> None | Some v \<Rightarrow> parse_digits cs v))"

definition int_of_str :: "string \<Rightarrow> int option" where
  "int_of_str s =
     (case strip_with int_space s of
        [] \<Rightarrow> None
      | c # cs \<Rightarrow>
          if c = CHR ''+'' then map_option int (parse_nat cs)
          else if c = CHR ''-'' then map_option (\<lambda>n. - int n) (parse_nat cs)
          else map_option int (parse_nat (c # cs)))"

subsection \<open>Coercions\<close>

text \<open>\<^verbatim>\<open>int(x)\<close> of a float truncates towards zero; NaN and the infinities raise.\<close>

definition trunc_rat :: "rat \<Rightarrow> int" where
  "trunc_rat q = (if 0 \<le> q then \<lfloor>q\<rfloor> else \<lceil>q\<rceil>)"

fun py_int :: "json \<Rightarrow> py_exc + int" where
  "py_int (JInt n) = Inr n"
| "py_int (JBool b) = Inr (if b then 1 else 0)"
| "py_int (JFloat (Finite q)) = Inr (trunc_rat q)"
| "py_int (JFloat NegZero) = Inr 0"
| "py_int (JFloat NaN) = Inl ValueError"
| "py_int (JFloat PosInf) = Inl OverflowError"
| "py_int (JFloat NegInf) = Inl OverflowError"
| "py_int (JStr s) = (case int_of_str s of None \<Rightarrow> Inl ValueError | Some n \<Rightarrow> Inr n)"
| "py_int JNull = Inl TypeError"
| "py_int (JArr xs) = Inl TypeError"
| "py_int (JObj kvs) = Inl TypeError"

text \<open>
  \<^verbatim>\<open>str(x)\<close>: a \<^verbatim>\<open>str\<close> is itself, \<^verbatim>\<open>None\<close>, a \<^verbatim>\<open>bool\<close> and an \<^verbatim>\<open>int\<close> print as below. For a
  float, a list and a dict \<^verbatim>\<open>str\<close> is the interpreter's \<^verbatim>\<open>repr\<close> (shortest digits that
  round-trip, quoting of nested strings), which is no code of this repository: it is
  the parameter \<open>repr\<close>.
\<close>

fun py_str :: "(json \<Rightarrow> string) \<Rightarrow> json \<Rightarrow> string" where
  "py_str repr (JStr s) = s"
| "py_str repr JNull = ''None''"
| "py_str repr (JBool b) = (if b then ''True'' else ''False'')"
| "py_str repr (JInt n) = show_int n"
| "py_str repr v = repr v"

subsection \<open>Dictionaries and membership\<close>

text \<open>
  A dict is an association list in insertion order with distinct keys; assigning to a
  key keeps the key's place (\<open>AList.update\<close>). \<^verbatim>\<open>k in x\<close> is key membership on a dict,
  element equality on a list, the substring test on a \<^verbatim>\<open>str\<close>, and a \<^verbatim>\<open>TypeError\<close> on
  the values that are not containers.
\<close>

fun is_prefix :: "string \<Rightarrow> string \<Rightarrow> bool" where
  "is_prefix [] ys = True"
| "is_prefix (x # xs) [] = False"
| "is_prefix (x # xs) (y # ys) = (x = y \<and> is_prefix xs ys)"

fun is_substring :: "string \<Rightarrow> string \<Rightarrow> bool" where
  "is_substring k [] = (k = [])"
| "is_substring k (c # cs) = (is_prefix k (c # cs) \<or> is_substring k cs)"

fun py_contains :: "json \<Rightarrow> string \<Rightarrow> py_exc + bool" where
  "py_contains (JObj kvs) k = Inr (k \<in> set (map fst kvs))"
| "py_contains (JArr xs) k = Inr (JStr k \<in> set xs)"
| "py_contains (JStr s) k = Inr (is_substring k s)"
| "py_contains v k = Inl TypeError"

text \<open>\<^verbatim>\<open>x[k]\<close> with a \<^verbatim>\<open>str\<close> key, and \<^verbatim>\<open>x.get(k, default)\<close>, which only a dict has.\<close>

fun py_getitem :: "json \<Rightarrow> string \<Rightarrow> py_exc + json" where
  "py_getitem (JObj kvs) k = (case map_of kvs k of None \<Rightarrow> Inl KeyError | Some v \<Rightarrow> Inr v)"
| "py_getitem v k = Inl TypeError"

fun py_get :: "json \<Rightarrow> string \<Rightarrow> json \<Rightarrow> py_exc + json" where
  "py_get (JObj kvs) k d = (case map_of kvs k of None \<Rightarrow> Inr d | Some v \<Rightarrow> Inr v)"
| "py_get v k d = Inl AttributeError"

section \<open>The collector: \<^verbatim>\<open>server/app.py\<close>\<close>

definition REPORT_INTERVAL_DEFAULT :: int where
  "REPORT_INTERVAL_DEFAULT = 10"

definition mark_online_state :: "int \<Rightarrow> int \<Rightarrow> int \<Rightarrow> bool" where
  "mark_online_state now last_seen interval \<longleftrightarrow>
     (now - last_seen) \<le> (2 * max interval REPORT_INTERVAL_DEFAULT)"

definition human_ago :: "int \<Rightarrow> string" where
  "human_ago seconds =
     (if seconds < 60 then show_int seconds @ ''s ago''
      else let mins = seconds div 60 in
        if mins < 60 then show_int mins @ ''m ago''
        else let hrs = mins div 60 in
          if hrs < 24 then show_int hrs @ ''h '' @ show_int (mins mod 60) @ ''m ago''
          else let days = hrs div 24 in show_int days @ ''d ago'')"

text \<open>
  \<^verbatim>\<open>DEVICES\<close>: for each device id the dict
  \<^verbatim>\<open>{"metrics": payload, "last_seen": ts, "interval": interval}\<close>.
\<close>

record device =
  metrics_of :: json
  last_seen :: int
  interval :: int

type_synonym devices = "(string \<times> device) list"

text \<open>What the view returns: the status code and the JSON body of the response.\<close>

record response =
  status :: nat
  body :: json

definition jsonify :: "(string \<times> json) list \<Rightarrow> nat \<Rightarrow> response" where
  "jsonify kvs code = \<lparr>status = code, body = JObj kvs\<rparr>"

text \<open>
  The schema check \<^verbatim>\<open>for k in (...): if k not in payload: return ..., 400\<close>. The result is
  \<open>Inl\<close> when the loop leaves the function: \<open>Inl (Inl e)\<close> by an exception of \<^verbatim>\<open>in\<close>,
  \<open>Inl (Inr r)\<close> by the \<^verbatim>\<open>return\<close>.
\<close>

fun schema_check :: "json \<Rightarrow> string list \<Rightarrow> (py_exc + response) + unit" where
  "schema_check payload [] = Inr ()"
| "schema_check payload (k # ks) =
     (case py_contains payload k of
        Inl e \<Rightarrow> Inl (Inl e)
      | Inr True \<Rightarrow> schema_check payload ks
      | Inr False \<Rightarrow> Inl (Inr (jsonify [(''error'', JStr (''missing field: '' @ k))] 400)))"

text \<open>
  \<^verbatim>\<open>metrics()\<close>. The request body is \<open>None\<close> when \<^verbatim>\<open>get_json\<close> raises (no JSON), else the
  decoded value. The function returns a response or raises, and leaves the store as
  the second component.
\<close>

definition metrics :: "(json \<Rightarrow> string) \<Rightarrow> devices \<Rightarrow> json option \<Rightarrow> (py_exc + response) \<times> devices" where
  "metrics repr DEVICES request_json =
     (case request_json of
        None \<Rightarrow> (Inr (jsonify [(''error'', JStr ''invalid JSON'')] 400), DEVICES)
      | Some payload \<Rightarrow>
        (case schema_check payload [''device_id'', ''ts'', ''system'', ''network''] of
           Inl r \<Rightarrow> (r, DEVICES)
         | Inr _ \<Rightarrow>
           (case py_getitem payload ''device_id'' of
              Inl e \<Rightarrow> (Inl e, DEVICES)
            | Inr d \<Rightarrow>
              let device_id = py_str repr d in
              (case py_getitem payload ''ts'' of
                 Inl e \<Rightarrow> (Inl e, DEVICES)
               | Inr t \<Rightarrow>
                 (case py_int t of
                    Inl e \<Rightarrow> (Inl e, DEVICES)
                  | Inr ts \<Rightarrow>
                    (case py_get payload ''interval'' (JInt REPORT_INTERVAL_DEFAULT) of
                       Inl e \<Rightarrow> (Inl e, DEVICES)
                     | Inr i \<Rightarrow>
                       (case py_int i of
                          Inl e \<Rightarrow> (Inl e, DEVICES)
                        | Inr interval_v \<Rightarrow>
                          (Inr (jsonify [(''status'', JStr ''ok'')] 200),
                           AList.update device_id
                             \<lparr>metrics_of = payload, last_seen = ts, interval = interval_v\<rparr>
                             DEVICES))))))))"

text \<open>
  One entry of \<^verbatim>\<open>build_rows\<close>: the flattened view of a device. A field read with
  \<^verbatim>\<open>d.get(k)\<close> is \<open>JNull\<close> (Python's \<^verbatim>\<open>None\<close>) when the key is absent.
\<close>

record row =
  row_device_id :: string
  row_online :: bool
  row_last_seen :: int
  row_last_seen_ago :: string
  row_uptime_s :: json
  row_cpu_pct :: json
  row_mem_pct :: json
  row_disk_pct :: json
  row_loadavg :: json
  row_iface :: json
  row_ip :: json
  row_mac :: json
  row_rx_bytes :: json
  row_tx_bytes :: json
  row_rx_packets :: json
  row_tx_packets :: json

text \<open>
  \<^verbatim>\<open>x.get(k)\<close> raises \<^verbatim>\<open>AttributeError\<close> unless \<open>x\<close> is a dict, whatever the key: the keys
  of a dict are taken once (\<open>dict_items\<close>), then each field is looked up (\<open>lookup\<close>).
\<close>

fun dict_items :: "json \<Rightarrow> py_exc + (string \<times> json) list" where
  "dict_items (JObj kvs) = Inr kvs"
| "dict_items v = Inl AttributeError"

definition lookup :: "(string \<times> json) list \<Rightarrow> string \<Rightarrow> json" where
  "lookup kvs k = (case map_of kvs k of None \<Rightarrow> JNull | Some v \<Rightarrow> v)"

text \<open>
  The body of the loop of \<^verbatim>\<open>build_rows\<close>, for one item of \<^verbatim>\<open>DEVICES\<close>. The two \<^verbatim>\<open>int(...)\<close> of
  the loop are applied to the integers that \<^verbatim>\<open>metrics\<close> stored, and leave them as they are.
\<close>

definition build_row :: "int \<Rightarrow> string \<times> device \<Rightarrow> py_exc + row" where
  "build_row now item =
     (let device_id = fst item; rec = snd item;
          last_seen_v = last_seen rec;
          interval_v = interval rec;
          online = mark_online_state now last_seen_v interval_v;
          m = metrics_of rec
      in case py_get m ''system'' (JObj []) of
           Inl e \<Rightarrow> Inl e
         | Inr sysm \<Rightarrow>
          (case py_get m ''network'' (JObj []) of
             Inl e \<Rightarrow> Inl e
           | Inr netm \<Rightarrow>
            (case dict_items sysm of
               Inl e \<Rightarrow> Inl e
             | Inr sys_kvs \<Rightarrow>
              (case dict_items netm of
                 Inl e \<Rightarrow> Inl e
               | Inr net_kvs \<Rightarrow>
                 Inr \<lparr>row_device_id = device_id,
                      row_online = online,
                      row_last_seen = last_seen_v,
                      row_last_seen_ago = human_ago (max 0 (now - last_seen_v)),
                      row_uptime_s = lookup sys_kvs ''uptime_s'',
                      row_cpu_pct = lookup sys_kvs ''cpu_pct'',
                      row_mem_pct = lookup sys_kvs ''mem_pct'',
                      row_disk_pct = lookup sys_kvs ''disk_pct'',
                      row_loadavg = lookup sys_kvs ''loadavg'',
                      row_iface = lookup net_kvs ''iface'',
                      row_ip = lookup net_kvs ''ip'',
                      row_mac = lookup net_kvs ''mac'',
                      row_rx_bytes = lookup net_kvs ''rx_bytes'',
                      row_tx_bytes = lookup net_kvs ''tx_bytes'',
                      row_rx_packets = lookup net_kvs ''rx_packets'',
                      row_tx_packets = lookup net_kvs ''tx_packets''\<rparr>))))"

text \<open>A loop that appends one result per item and stops at the first exception.\<close>

fun map_exc :: "('a \<Rightarrow> py_exc + 'b) \<Rightarrow> 'a list \<Rightarrow> py_exc + 'b list" where
  "map_exc f [] = Inr []"
| "map_exc f (x # xs) =
     (case f x of
        Inl e \<Rightarrow> Inl e
      | Inr y \<Rightarrow> (case map_exc f xs of Inl e \<Rightarrow> Inl e | Inr ys \<Rightarrow> Inr (y # ys)))"

text \<open>
  \<^verbatim>\<open>build_rows()\<close>, with the clock reading \<^verbatim>\<open>int(time.time())\<close> as the argument \<open>now\<close>.
  \<^verbatim>\<open>sorted(DEVICES.items())\<close> orders the items by key: the keys of a dict are distinct, so
  the comparison of two items is decided by their keys.
\<close>

definition build_rows :: "int \<Rightarrow> devices \<Rightarrow> py_exc + row list \<times> int" where
  "build_rows now DEVICES =
     (case map_exc (build_row now) (sort_key fst DEVICES) of
        Inl e \<Rightarrow> Inl e
      | Inr rows \<Rightarrow> Inr (rows, now))"

section \<open>The agent: \<^verbatim>\<open>agent/agent.py\<close>\<close>

subsection \<open>Float arithmetic\<close>












subsection \<open>System metrics\<close>

text \<open>
  \<^verbatim>\<open>_read_proc_stat()\<close>. The argument is the first line of \<^verbatim>\<open>/proc/stat\<close>, \<open>None\<close> when
  opening or reading the file raises.
\<close>

definition read_proc_stat :: "string option \<Rightarrow> py_exc + int \<times> int" where
  "read_proc_stat line =
     (case line of
        None \<Rightarrow> Inl OSError
      | Some l \<Rightarrow>
         let parts = py_split l in
         (case those (map int_of_str (drop 1 parts)) of
            None \<Rightarrow> Inl ValueError
          | Some ints \<Rightarrow>
             let vals = ints @ replicate 10 0;
                 user = vals ! 0; nice = vals ! 1; system = vals ! 2; idle = vals ! 3;
                 iowait = vals ! 4; irq = vals ! 5; softirq = vals ! 6; steal = vals ! 7;
                 idle_all = idle + iowait;
                 total = idle_all + user + nice + system + irq + softirq + steal
             in Inr (total, idle_all)))"


subsection \<open>Network metrics\<close>

text \<open>
  The agent reads files and runs commands. A file system is a function from a path to
  what \<^verbatim>\<open>f.read()\<close> returns, \<open>None\<close> when \<^verbatim>\<open>open\<close> or \<^verbatim>\<open>read\<close> raises; a command runner is a
  function from the argument list to the decoded standard output, \<open>None\<close> when
  \<^verbatim>\<open>check_output\<close> or \<^verbatim>\<open>decode\<close> raises.
\<close>

type_synonym files = "string \<Rightarrow> string option"
type_synonym runner = "string list \<Rightarrow> string option"

definition sh :: "runner \<Rightarrow> string list \<Rightarrow> py_exc + string" where
  "sh run cmd_list = (case run cmd_list of None \<Rightarrow> Inl OSError | Some out \<Rightarrow> Inr (py_strip out))"

definition read :: "files \<Rightarrow> string \<Rightarrow> string \<Rightarrow> string" where
  "read fs path dflt = (case fs path of None \<Rightarrow> dflt | Some content \<Rightarrow> py_strip content)"

text \<open>\<^verbatim>\<open>xs.index(x)\<close> where \<open>x\<close> occurs, and \<^verbatim>\<open>xs[i]\<close> for \<open>i \<ge> 0\<close>.\<close>

fun py_index :: "'a list \<Rightarrow> 'a \<Rightarrow> nat" where
  "py_index [] x = 0"
| "py_index (y # ys) x = (if y = x then 0 else Suc (py_index ys x))"

definition py_nth :: "'a list \<Rightarrow> nat \<Rightarrow> py_exc + 'a" where
  "py_nth xs i = (if i < length xs then Inr (xs ! i) else Inl IndexError)"

definition default_iface :: "runner \<Rightarrow> string" where
  "default_iface run =
     (case sh run [''ip'', ''route'', ''show'', ''default''] of
        Inl e \<Rightarrow> []
      | Inr out \<Rightarrow>
         let parts = py_split out in
         if ''dev'' \<in> set parts then
           (case py_nth parts (py_index parts ''dev'' + 1) of Inl e \<Rightarrow> [] | Inr p \<Rightarrow> p)
         else [])"

text \<open>\<^verbatim>\<open>s.split("/")[0]\<close>: the text before the first slash.\<close>

definition ip_of :: "runner \<Rightarrow> string \<Rightarrow> string" where
  "ip_of run iface =
     (if iface = [] then []
      else (case sh run [''ip'', ''-o'', ''-4'', ''addr'', ''show'', ''dev'', iface] of
              Inl e \<Rightarrow> []
            | Inr out \<Rightarrow>
               (case py_nth (py_split out) 3 of
                  Inl e \<Rightarrow> []
                | Inr p \<Rightarrow> takeWhile (\<lambda>c. c \<noteq> CHR ''/'') p)))"

definition mac_of :: "files \<Rightarrow> string \<Rightarrow> string" where
  "mac_of fs iface =
     (if iface \<noteq> [] then read fs (''/sys/class/net/'' @ iface @ ''/address'') [] else [])"

text \<open>\<^verbatim>\<open>int(read(path, "0"))\<close>, the expression \<^verbatim>\<open>nic_stats\<close> evaluates four times.\<close>

definition read_counter :: "files \<Rightarrow> string \<Rightarrow> py_exc + int" where
  "read_counter fs path =
     (case int_of_str (read fs path ''0'') of None \<Rightarrow> Inl ValueError | Some n \<Rightarrow> Inr n)"

definition nic_stats :: "files \<Rightarrow> string \<Rightarrow> py_exc + int \<times> int \<times> int \<times> int" where
  "nic_stats fs iface =
     (if iface = [] then Inr (0, 0, 0, 0)
      else
       (case read_counter fs (''/sys/class/net/'' @ iface @ ''/statistics/rx_bytes'') of
          Inl e \<Rightarrow> Inl e
        | Inr rb \<Rightarrow>
         (case read_counter fs (''/sys/class/net/'' @ iface @ ''/statistics/tx_bytes'') of
            Inl e \<Rightarrow> Inl e
          | Inr tb \<Rightarrow>
           (case read_counter fs (''/sys/class/net/'' @ iface @ ''/statistics/rx_packets'') of
              Inl e \<Rightarrow> Inl e
            | Inr rp \<Rightarrow>
             (case read_counter fs (''/sys/class/net/'' @ iface @ ''/statistics/tx_packets'') of
                Inl e \<Rightarrow> Inl e
              | Inr tp \<Rightarrow> Inr (rb, tb, rp, tp))))))"

subsection \<open>The report loop\<close>

text \<open>
  What the loop of \<^verbatim>\<open>main\<close> does is recorded as a trace of events: a sample taken
  (\<^verbatim>\<open>collect\<close>), a payload sent with the outcome of \<^verbatim>\<open>post_json\<close>, a sleep of so many
  seconds. The outcome of a send is \<open>Delivered\<close>, \<open>TransportError\<close> (\<^verbatim>\<open>post_json\<close> raises
  \<^verbatim>\<open>HTTPError\<close> or \<^verbatim>\<open>URLError\<close>) or \<open>OtherError\<close> (it raises another \<^verbatim>\<open>Exception\<close>).

  The environment gives the outcome of the \<open>k\<close>-th call of \<^verbatim>\<open>post_json\<close> and the result of
  the \<open>k\<close>-th call of \<^verbatim>\<open>collect\<close>, which returns a payload or raises. The state counts the
  calls made.
\<close>

datatype outcome = Delivered | TransportError | OtherError

datatype 'p event = Sample 'p | Send 'p outcome | Sleep int

record 'p agent =
  trace :: "'p event list"
  posts :: nat
  samples :: nat

definition emit :: "'p event \<Rightarrow> 'p agent \<Rightarrow> 'p agent" where
  "emit ev s = s\<lparr>trace := trace s @ [ev]\<rparr>"

text \<open>\<^verbatim>\<open>post_json(url, payload)\<close>: the outcome, and the state after the call.\<close>

definition post_json :: "(nat \<Rightarrow> outcome) \<Rightarrow> 'p \<Rightarrow> 'p agent \<Rightarrow> outcome \<times> 'p agent" where
  "post_json net payload s =
     (let r = net (posts s) in (r, (emit (Send payload r) s)\<lparr>posts := Suc (posts s)\<rparr>))"

text \<open>
  The loop \<^verbatim>\<open>for back in (2, 4, 8)\<close> of the handler of \<^verbatim>\<open>HTTPError\<close> and \<^verbatim>\<open>URLError\<close>: sleep,
  send the payload again, \<^verbatim>\<open>break\<close> when it is delivered, \<^verbatim>\<open>continue\<close> on any exception.
\<close>

fun retry :: "(nat \<Rightarrow> outcome) \<Rightarrow> 'p \<Rightarrow> int list \<Rightarrow> 'p agent \<Rightarrow> 'p agent" where
  "retry net payload [] s = s"
| "retry net payload (back # rest) s =
     (case post_json net payload (emit (Sleep back) s) of
        (Delivered, s') \<Rightarrow> s'
      | (r, s') \<Rightarrow> retry net payload rest s')"

text \<open>
  One pass through the body of \<^verbatim>\<open>while True\<close>. \<^verbatim>\<open>collect\<close> is called outside the \<^verbatim>\<open>try\<close>, so
  an exception of it leaves the loop and the program (\<open>Inl\<close>).
\<close>

definition loop_body ::
  "(nat \<Rightarrow> py_exc + 'p) \<Rightarrow> (nat \<Rightarrow> outcome) \<Rightarrow> int \<Rightarrow> 'p agent \<Rightarrow> py_exc + 'p agent" where
  "loop_body collect net interval_v s =
     (case collect (samples s) of
        Inl e \<Rightarrow> Inl e
      | Inr payload \<Rightarrow>
         let s1 = (emit (Sample payload) s)\<lparr>samples := Suc (samples s)\<rparr> in
         (case post_json net payload s1 of
            (Delivered, s2) \<Rightarrow> Inr (emit (Sleep interval_v) s2)
          | (TransportError, s2) \<Rightarrow> Inr (retry net payload [2, 4, 8] s2)
          | (OtherError, s2) \<Rightarrow> Inr (emit (Sleep interval_v) s2)))"

text \<open>
  \<^verbatim>\<open>while True\<close> never ends by itself; \<open>main_loop n\<close> is the state after \<open>n\<close> passes, or the
  exception that ended the loop before.
\<close>

fun main_loop ::
  "(nat \<Rightarrow> py_exc + 'p) \<Rightarrow> (nat \<Rightarrow> outcome) \<Rightarrow> int \<Rightarrow> nat \<Rightarrow> 'p agent \<Rightarrow> py_exc + 'p agent" where
  "main_loop collect net interval_v 0 s = Inr s"
| "main_loop collect net interval_v (Suc n) s =
     (case loop_body collect net interval_v s of
        Inl e \<Rightarrow> Inl e
      | Inr s' \<Rightarrow> main_loop collect net interval_v n s')"

text \<open>\<^verbatim>\<open>main()\<close>, with the parsed \<^verbatim>\<open>--interval\<close> as \<open>a_interval\<close>, observed for \<open>n\<close> passes.\<close>

definition main ::
  "(nat \<Rightarrow> py_exc + 'p) \<Rightarrow> (nat \<Rightarrow> outcome) \<Rightarrow> int \<Rightarrow> nat \<Rightarrow> py_exc + 'p agent" where
  "main collect net a_interval n =
     (let interval_v = max 3 a_interval
      in main_loop collect net interval_v n \<lparr>trace = [], posts = 0, samples = 0\<rparr>)"

section \<open>Properties of the collector\<close>

subsection \<open>Online classification\<close>

text \<open>
  Claim C1. For every \<open>now\<close>, \<open>last_seen\<close> and \<open>interval\<close> the classification is true exactly
  when \<open>now - last_seen \<le> 2 * max interval 10\<close>. It is true when the difference is
  exactly \<open>2 * max interval 10\<close> and false when it is one more.
\<close>

theorem online_threshold:
  "(mark_online_state now seen iv \<longleftrightarrow> now - seen \<le> 2 * max iv 10)
   \<and> mark_online_state (seen + 2 * max iv 10) seen iv
   \<and> \<not> mark_online_state (seen + 2 * max iv 10 + 1) seen iv"
  by (simp add: mark_online_state_def REPORT_INTERVAL_DEFAULT_def)

subsection \<open>Facts about the operations\<close>

lemma py_getitem_InrD:
  assumes "py_getitem p k = Inr v"
  obtains kvs where "p = JObj kvs" and "map_of kvs k = Some v"
  using assms by (cases p) (auto split: option.splits)

lemma map_of_key_mem: "map_of kvs k = Some v \<Longrightarrow> k \<in> fst ` set kvs"
  by (metis domI dom_map_of_conv_image_fst)

lemma schema_check_status:
  "schema_check p ks = Inl (Inr r) \<Longrightarrow> status r = 400"
  by (induction ks) (auto simp: jsonify_def split: sum.splits bool.splits if_splits)

lemma schema_check_all_present:
  "\<forall>k \<in> set ks. k \<in> fst ` set kvs \<Longrightarrow> schema_check (JObj kvs) ks = Inr ()"
  by (induction ks) auto

lemma schema_check_missing:
  "k \<in> set ks \<Longrightarrow> k \<notin> fst ` set kvs \<Longrightarrow>
   \<exists>k' \<in> set ks. k' \<notin> fst ` set kvs \<and>
     schema_check (JObj kvs) ks = Inl (Inr \<lparr>status = 400, body = JObj [(''error'', JStr (''missing field: '' @ k'))]\<rparr>)"
proof (induction ks)
  case Nil
  then show ?case by simp
next
  case (Cons a ks)
  show ?case
  proof (cases "a \<in> fst ` set kvs")
    case True
    with Cons.prems have "k \<in> set ks" by auto
    from Cons.IH[OF this Cons.prems(2)] True show ?thesis by auto
  next
    case False
    then show ?thesis by (auto simp: jsonify_def)
  qed
qed

lemma metrics_accept:
  assumes "py_getitem payload ''device_id'' = Inr d"
    and "py_getitem payload ''ts'' = Inr t"
    and "py_getitem payload ''system'' = Inr sy"
    and "py_getitem payload ''network'' = Inr nw"
    and "py_int t = Inr ts"
    and "py_get payload ''interval'' (JInt REPORT_INTERVAL_DEFAULT) = Inr i"
    and "py_int i = Inr iv"
  shows "metrics repr devs (Some payload) =
           (Inr \<lparr>status = 200, body = JObj [(''status'', JStr ''ok'')]\<rparr>,
            AList.update (py_str repr d) \<lparr>metrics_of = payload, last_seen = ts, interval = iv\<rparr> devs)"
proof -
  from assms(1) obtain kvs where p: "payload = JObj kvs" and m1: "map_of kvs ''device_id'' = Some d"
    by (rule py_getitem_InrD)
  from assms(2,3,4) p have m2: "map_of kvs ''ts'' = Some t"
    and m3: "map_of kvs ''system'' = Some sy" and m4: "map_of kvs ''network'' = Some nw"
    by (auto split: option.splits)
  have "\<forall>k \<in> set [''device_id'', ''ts'', ''system'', ''network'']. k \<in> fst ` set kvs"
    using m1 m2 m3 m4 by (auto dest: map_of_key_mem)
  then have sc: "schema_check payload [''device_id'', ''ts'', ''system'', ''network''] = Inr ()"
    unfolding p by (rule schema_check_all_present)
  show ?thesis
    using assms by (simp add: metrics_def sc jsonify_def del: schema_check.simps)
qed

lemma metrics_rejected_unchanged:
  assumes "metrics repr devs req = (r, devs')"
    and "r \<noteq> Inr \<lparr>status = 200, body = JObj [(''status'', JStr ''ok'')]\<rparr>"
  shows "devs' = devs"
  using assms
  by (auto simp: metrics_def jsonify_def Let_def simp del: schema_check.simps
      split: option.splits sum.splits)

lemma metrics_okD:
  assumes "metrics repr devs req = (Inr resp, devs')" and "status resp = 200"
  shows "\<exists>payload d t ts i iv. req = Some payload
           \<and> py_getitem payload ''device_id'' = Inr d
           \<and> py_getitem payload ''ts'' = Inr t \<and> py_int t = Inr ts
           \<and> py_get payload ''interval'' (JInt REPORT_INTERVAL_DEFAULT) = Inr i \<and> py_int i = Inr iv
           \<and> devs' = AList.update (py_str repr d) \<lparr>metrics_of = payload, last_seen = ts, interval = iv\<rparr> devs"
  using assms
  by (auto simp: metrics_def jsonify_def Let_def simp del: schema_check.simps
      split: option.splits sum.splits dest: schema_check_status)

lemma map_exc_mem:
  "map_exc f xs = Inr ys \<Longrightarrow> x \<in> set xs \<Longrightarrow> \<exists>y \<in> set ys. f x = Inr y"
  by (induction xs arbitrary: ys) (auto split: sum.splits)

lemma build_row_fields:
  assumes "build_row now (key, rec) = Inr r"
  shows "row_device_id r = key" and "row_last_seen r = last_seen rec"
    and "row_online r = mark_online_state now (last_seen rec) (interval rec)"
    and "row_last_seen_ago r = human_ago (max 0 (now - last_seen rec))"
  using assms by (auto simp: build_row_def Let_def split: sum.splits)

lemma build_rows_mem:
  assumes "build_rows now devs = Inr (rows, n)" and "map_of devs key = Some rec"
  shows "\<exists>r \<in> set rows. build_row now (key, rec) = Inr r"
proof -
  from assms(1) have m: "map_exc (build_row now) (sort_key fst devs) = Inr rows"
    by (auto simp: build_rows_def split: sum.splits)
  have "(key, rec) \<in> set (sort_key fst devs)"
    using assms(2) by (auto dest: map_of_SomeD)
  from map_exc_mem[OF m this] show ?thesis .
qed


lemma py_getitem_py_get: "py_getitem p k = Inr v \<Longrightarrow> py_get p k d = Inr v"
  by (cases p) (auto split: option.splits)

lemma build_row_no_network:
  assumes "build_row now (key, rec) = Inr r" and "py_getitem (metrics_of rec) ''network'' = Inr (JObj [])"
  shows "row_iface r = JNull \<and> row_ip r = JNull \<and> row_mac r = JNull \<and> row_rx_bytes r = JNull
         \<and> row_tx_bytes r = JNull \<and> row_rx_packets r = JNull \<and> row_tx_packets r = JNull"
  using assms(1) py_getitem_py_get[OF assms(2), of "JObj []"]
  by (auto simp: build_row_def Let_def lookup_def split: sum.splits)

lemma map_exc_Inr_iff:
  "(\<exists>ys. map_exc f xs = Inr ys) \<longleftrightarrow> (\<forall>x \<in> set xs. \<exists>y. f x = Inr y)"
  by (induction xs) (auto split: sum.splits)

lemma map_exc_set:
  "map_exc f xs = Inr ys \<Longrightarrow> y \<in> set ys \<Longrightarrow> \<exists>x \<in> set xs. f x = Inr y"
  by (induction xs arbitrary: ys) (auto split: sum.splits)

lemma update_set: "x \<in> set (AList.update k v al) \<Longrightarrow> x = (k, v) \<or> x \<in> set al"
  by (induction al) (auto split: if_splits)

lemma build_row_any_now: "build_row now item = Inr r \<Longrightarrow> \<exists>r'. build_row now' item = Inr r'"
  by (auto simp: build_row_def Let_def split: sum.splits)

lemma build_rows_after_update:
  assumes "build_rows now0 devs = Inr (rows0, n0)" and "build_row now (key, rec) = Inr r"
  shows "\<exists>rows. build_rows now (AList.update key rec devs) = Inr (rows, now) \<and> r \<in> set rows
           \<and> (distinct (map fst devs) \<longrightarrow> (\<forall>r' \<in> set rows. row_device_id r' = key \<longrightarrow> r' = r))"
proof -
  let ?upd = "AList.update key rec devs"
  from assms(1) have "\<exists>ys. map_exc (build_row now0) (sort_key fst devs) = Inr ys"
    by (auto simp: build_rows_def split: sum.splits)
  then have old: "\<forall>x \<in> set devs. \<exists>y. build_row now0 x = Inr y"
    by (simp add: map_exc_Inr_iff)
  have "\<forall>x \<in> set (sort_key fst ?upd). \<exists>y. build_row now x = Inr y"
  proof
    fix x assume "x \<in> set (sort_key fst ?upd)"
    then have "x \<in> set ?upd" by simp
    then have "x = (key, rec) \<or> x \<in> set devs" by (rule update_set)
    then show "\<exists>y. build_row now x = Inr y"
      using assms(2) old build_row_any_now by blast
  qed
  then obtain rows where m: "map_exc (build_row now) (sort_key fst ?upd) = Inr rows"
    using map_exc_Inr_iff[of "build_row now" "sort_key fst ?upd"] by blast
  then have b: "build_rows now ?upd = Inr (rows, now)" by (simp add: build_rows_def)
  have look: "map_of ?upd key = Some rec" by (simp add: update_conv')
  from build_rows_mem[OF b look] assms(2) have mem: "r \<in> set rows" by auto
  have uniq: "distinct (map fst devs) \<longrightarrow> (\<forall>r' \<in> set rows. row_device_id r' = key \<longrightarrow> r' = r)"
  proof (intro impI ballI)
    fix r' assume d: "distinct (map fst devs)" and r': "r' \<in> set rows" and k: "row_device_id r' = key"
    from map_exc_set[OF m r'] obtain x where x: "x \<in> set ?upd" and bx: "build_row now x = Inr r'"
      by auto
    obtain k' rec' where xe: "x = (k', rec')" by (cases x)
    from build_row_fields(1)[OF bx[unfolded xe]] k have "k' = key" by simp
    with x xe have "(key, rec') \<in> set ?upd" by simp
    moreover have "distinct (map fst ?upd)" using d by (rule distinct_update)
    ultimately have "map_of ?upd key = Some rec'" by (simp add: map_of_is_SomeI)
    with look have "rec' = rec" by simp
    with bx xe \<open>k' = key\<close> assms(2) show "r' = r" by simp
  qed
  from b mem uniq show ?thesis by blast
qed

lemma build_row_stored:
  assumes "py_getitem payload ''system'' = Inr (JObj skvs)"
    and "py_getitem payload ''network'' = Inr (JObj nkvs)"
  shows "build_row now (key, \<lparr>metrics_of = payload, last_seen = ts, interval = iv\<rparr>) =
           Inr \<lparr>row_device_id = key,
                row_online = mark_online_state now ts iv,
                row_last_seen = ts,
                row_last_seen_ago = human_ago (max 0 (now - ts)),
                row_uptime_s = lookup skvs ''uptime_s'',
                row_cpu_pct = lookup skvs ''cpu_pct'',
                row_mem_pct = lookup skvs ''mem_pct'',
                row_disk_pct = lookup skvs ''disk_pct'',
                row_loadavg = lookup skvs ''loadavg'',
                row_iface = lookup nkvs ''iface'',
                row_ip = lookup nkvs ''ip'',
                row_mac = lookup nkvs ''mac'',
                row_rx_bytes = lookup nkvs ''rx_bytes'',
                row_tx_bytes = lookup nkvs ''tx_bytes'',
                row_rx_packets = lookup nkvs ''rx_packets'',
                row_tx_packets = lookup nkvs ''tx_packets''\<rparr>"
  using py_getitem_py_get[OF assms(1), of "JObj []"] py_getitem_py_get[OF assms(2), of "JObj []"]
  by (simp add: build_row_def Let_def)

lemma div_lt_iff:
  fixes s :: int
  assumes "0 < q"
  shows "s div q < n \<longleftrightarrow> s < n * q"
proof -
  have e: "s = q * (s div q) + s mod q" by simp
  have m: "0 \<le> s mod q" "s mod q < q" using assms by simp_all
  show ?thesis
  proof
    assume "s div q < n"
    then have "s div q + 1 \<le> n" by simp
    then have "q * (s div q + 1) \<le> q * n" using assms by (simp only: mult_le_cancel_left_pos)
    then have "q * (s div q) + q \<le> n * q" by (simp add: algebra_simps)
    with e m show "s < n * q" by linarith
  next
    assume a: "s < n * q"
    show "s div q < n"
    proof (rule ccontr)
      assume "\<not> s div q < n"
      then have "n \<le> s div q" by simp
      then have "q * n \<le> q * (s div q)" using assms by (simp only: mult_le_cancel_left_pos)
      then have "n * q \<le> q * (s div q)" by (simp only: mult.commute)
      with e m a show False by linarith
    qed
  qed
qed

lemma human_ago_cases:
  "human_ago s =
     (if s < 60 then show_int s @ ''s ago''
      else if s < 3600 then show_int (s div 60) @ ''m ago''
      else if s < 86400 then show_int (s div 3600) @ ''h '' @ show_int ((s div 60) mod 60) @ ''m ago''
      else show_int (s div 86400) @ ''d ago'')"
proof -
  have a: "s div 60 < 60 \<longleftrightarrow> s < 3600" using div_lt_iff[of 60 s 60] by simp
  have b: "s div 60 div 60 = s div 3600" using zdiv_zmult2_eq[of 60 s 60] by simp
  have c: "s div 3600 < 24 \<longleftrightarrow> s < 86400" using div_lt_iff[of 3600 s 24] by simp
  have d: "s div 3600 div 24 = s div 86400" using zdiv_zmult2_eq[of 24 s 3600] by simp
  show ?thesis
    by (simp add: human_ago_def Let_def a b c d)
qed

subsection \<open>Recency text\<close>

text \<open>
  Claim C8. \<open>human_ago\<close> prints the seconds below a minute, the minutes below an hour,
  the hours and the minutes of the hour below a day, and the days (seconds divided by
  86400) from a day on; the six examples of the specification hold. \<^verbatim>\<open>build_rows\<close>
  passes \<open>max 0 (now - last_seen)\<close>, so what it formats is never negative. The first
  equation holds for negative seconds as well (they fall in the first case).
\<close>

theorem human_ago_format:
  "human_ago s =
     (if s < 60 then show_int s @ ''s ago''
      else if s < 3600 then show_int (s div 60) @ ''m ago''
      else if s < 86400 then show_int (s div 3600) @ ''h '' @ show_int ((s div 60) mod 60) @ ''m ago''
      else show_int (s div 86400) @ ''d ago'')
   \<and> human_ago 0 = ''0s ago'' \<and> human_ago 59 = ''59s ago'' \<and> human_ago 60 = ''1m ago''
   \<and> human_ago 3600 = ''1h 0m ago'' \<and> human_ago 3661 = ''1h 1m ago'' \<and> human_ago 86400 = ''1d ago''
   \<and> (build_row now item = Inr r \<longrightarrow>
        row_last_seen_ago r = human_ago (max 0 (now - last_seen (snd item))))"
proof -
  have e0: "human_ago 0 = ''0s ago''" by code_simp
  have e1: "human_ago 59 = ''59s ago''" by code_simp
  have e2: "human_ago 60 = ''1m ago''" by code_simp
  have e3: "human_ago 3600 = ''1h 0m ago''" by code_simp
  have e4: "human_ago 3661 = ''1h 1m ago''" by code_simp
  have e5: "human_ago 86400 = ''1d ago''" by code_simp
  have clamp: "build_row now item = Inr r \<longrightarrow>
        row_last_seen_ago r = human_ago (max 0 (now - last_seen (snd item)))"
  proof
    assume br: "build_row now item = Inr r"
    obtain key rec where item: "item = (key, rec)" by (cases item)
    from build_row_fields(4)[of now key rec r] br item
    show "row_last_seen_ago r = human_ago (max 0 (now - last_seen (snd item)))" by simp
  qed
  show ?thesis
    by (intro conjI) (rule human_ago_cases e0 e1 e2 e3 e4 e5 clamp)+
qed

text \<open>The clamp at work: a record seen sixty seconds after \<open>now\<close> reads \<open>0s ago\<close>.\<close>

theorem human_ago_format_witness:
  "\<exists>r. build_row 100 (''d1'', \<lparr>metrics_of = JObj [(''system'', JObj []), (''network'', JObj [])],
                              last_seen = 160, interval = 10\<rparr>) = Inr r
       \<and> row_last_seen_ago r = ''0s ago''"
proof -
  let ?item = "(''d1'', \<lparr>metrics_of = JObj [(''system'', JObj []), (''network'', JObj [])],
                         last_seen = 160, interval = 10\<rparr>)"
  obtain r where r: "build_row 100 ?item = Inr r"
    by (simp add: build_row_def Let_def)
  have "row_last_seen_ago r = human_ago (max 0 (100 - last_seen (snd ?item)))"
    using human_ago_format[of 0 100 ?item r] r by blast
  moreover have "human_ago 0 = ''0s ago''"
    using human_ago_format[of 0 100 ?item r] by blast
  ultimately have "row_last_seen_ago r = ''0s ago''" by simp
  with r show ?thesis by blast
qed

subsection \<open>Rejected submissions\<close>

text \<open>
  Claim C3 says that every payload lacking one of the keys \<^verbatim>\<open>device_id\<close>, \<^verbatim>\<open>ts\<close>, \<^verbatim>\<open>system\<close>,
  \<^verbatim>\<open>network\<close> is answered with status 400 naming a missing field, the store unchanged.
  For a payload that is a JSON object this is what \<^verbatim>\<open>metrics\<close> does: the body is
  \<^verbatim>\<open>{"error": "missing field: k"}\<close> for a key \<open>k\<close> that is missing, and the store is the one
  before the call; a body that is no JSON is answered with 400 as well. For a payload
  that is JSON but no container (\<^verbatim>\<open>null\<close>, a number, a boolean), which has none of the four
  keys, \<^verbatim>\<open>k not in payload\<close> raises \<^verbatim>\<open>TypeError\<close> outside any \<^verbatim>\<open>try\<close>: the call ends in that
  exception and not in a 400. The store is unchanged there too.
\<close>

theorem missing_field_check:
  "(k \<in> set [''device_id'', ''ts'', ''system'', ''network''] \<and> k \<notin> fst ` set kvs \<longrightarrow>
      (\<exists>k' \<in> set [''device_id'', ''ts'', ''system'', ''network'']. k' \<notin> fst ` set kvs \<and>
         metrics repr devs (Some (JObj kvs)) =
           (Inr \<lparr>status = 400, body = JObj [(''error'', JStr (''missing field: '' @ k'))]\<rparr>, devs)))
   \<and> metrics repr devs None =
       (Inr \<lparr>status = 400, body = JObj [(''error'', JStr ''invalid JSON'')]\<rparr>, devs)
   \<and> metrics repr devs (Some JNull) = (Inl TypeError, devs)
   \<and> metrics repr devs (Some (JInt n)) = (Inl TypeError, devs)
   \<and> metrics repr devs (Some (JFloat x)) = (Inl TypeError, devs)
   \<and> metrics repr devs (Some (JBool b)) = (Inl TypeError, devs)"
proof -
  have obj: "k \<in> set [''device_id'', ''ts'', ''system'', ''network''] \<and> k \<notin> fst ` set kvs \<longrightarrow>
      (\<exists>k' \<in> set [''device_id'', ''ts'', ''system'', ''network'']. k' \<notin> fst ` set kvs \<and>
         metrics repr devs (Some (JObj kvs)) =
           (Inr \<lparr>status = 400, body = JObj [(''error'', JStr (''missing field: '' @ k'))]\<rparr>, devs))"
  proof
    assume a: "k \<in> set [''device_id'', ''ts'', ''system'', ''network''] \<and> k \<notin> fst ` set kvs"
    then have a1: "k \<in> set [''device_id'', ''ts'', ''system'', ''network'']"
      and a2: "k \<notin> fst ` set kvs" by blast+
    from schema_check_missing[OF a1 a2] obtain k'
      where k': "k' \<in> set [''device_id'', ''ts'', ''system'', ''network'']" "k' \<notin> fst ` set kvs"
        and sc: "schema_check (JObj kvs) [''device_id'', ''ts'', ''system'', ''network''] =
                   Inl (Inr \<lparr>status = 400, body = JObj [(''error'', JStr (''missing field: '' @ k'))]\<rparr>)"
      by blast
    have "metrics repr devs (Some (JObj kvs)) =
            (Inr \<lparr>status = 400, body = JObj [(''error'', JStr (''missing field: '' @ k'))]\<rparr>, devs)"
      by (simp add: metrics_def sc del: schema_check.simps)
    with k' show "\<exists>k' \<in> set [''device_id'', ''ts'', ''system'', ''network'']. k' \<notin> fst ` set kvs \<and>
         metrics repr devs (Some (JObj kvs)) =
           (Inr \<lparr>status = 400, body = JObj [(''error'', JStr (''missing field: '' @ k'))]\<rparr>, devs)"
      by blast
  qed
  have inv: "metrics repr devs None =
       (Inr \<lparr>status = 400, body = JObj [(''error'', JStr ''invalid JSON'')]\<rparr>, devs)"
    by (simp add: metrics_def jsonify_def)
  have n1: "metrics repr devs (Some JNull) = (Inl TypeError, devs)" by (simp add: metrics_def)
  have n2: "metrics repr devs (Some (JInt n)) = (Inl TypeError, devs)" by (simp add: metrics_def)
  have n3: "metrics repr devs (Some (JFloat x)) = (Inl TypeError, devs)" by (simp add: metrics_def)
  have n4: "metrics repr devs (Some (JBool b)) = (Inl TypeError, devs)" by (simp add: metrics_def)
  from obj inv n1 n2 n3 n4 show ?thesis by (intro conjI)
qed

text \<open>
  A payload without \<^verbatim>\<open>network\<close>, and the payload \<^verbatim>\<open>null\<close>, sent to a store that holds
  another device.
\<close>

theorem missing_field_check_witness:
  "''network'' \<in> set [''device_id'', ''ts'', ''system'', ''network'']
   \<and> ''network'' \<notin> fst ` set [(''device_id'', JStr ''d1''), (''ts'', JInt 200), (''system'', JObj [])]
   \<and> metrics undefined
        [(''d0'', \<lparr>metrics_of = JObj [], last_seen = 1, interval = 10\<rparr>)]
        (Some (JObj [(''device_id'', JStr ''d1''), (''ts'', JInt 200), (''system'', JObj [])])) =
       (Inr \<lparr>status = 400, body = JObj [(''error'', JStr ''missing field: network'')]\<rparr>,
        [(''d0'', \<lparr>metrics_of = JObj [], last_seen = 1, interval = 10\<rparr>)])
   \<and> metrics undefined
        [(''d0'', \<lparr>metrics_of = JObj [], last_seen = 1, interval = 10\<rparr>)] (Some JNull) =
       (Inl TypeError, [(''d0'', \<lparr>metrics_of = JObj [], last_seen = 1, interval = 10\<rparr>)])"
  using missing_field_check[of "''network''"
      "[(''device_id'', JStr ''d1''), (''ts'', JInt 200), (''system'', JObj [])]" undefined
      "[(''d0'', \<lparr>metrics_of = JObj [], last_seen = 1, interval = 10\<rparr>)]"]
  by (simp add: metrics_def jsonify_def)

subsection \<open>Coercion failures\<close>

text \<open>
  Claim C10. When the payload holds the four required keys and \<^verbatim>\<open>int(payload["ts"])\<close>
  raises, or \<^verbatim>\<open>int(payload.get("interval", 10))\<close> raises (which needs the key
  \<^verbatim>\<open>interval\<close> to be present, the default being an integer), \<^verbatim>\<open>metrics\<close> raises before
  the assignment to \<^verbatim>\<open>DEVICES\<close>: the call ends in an exception and the store is the one
  before the call.
\<close>

theorem coercion_failure_stores_nothing:
  assumes "py_getitem payload ''device_id'' = Inr d"
    and "py_getitem payload ''ts'' = Inr t"
    and "py_getitem payload ''system'' = Inr sy"
    and "py_getitem payload ''network'' = Inr nw"
    and "py_get payload ''interval'' (JInt REPORT_INTERVAL_DEFAULT) = Inr i"
    and "py_int t = Inl e \<or> py_int i = Inl e"
  shows "\<exists>e'. metrics repr devs (Some payload) = (Inl e', devs)"
proof -
  from assms(1) obtain kvs where p: "payload = JObj kvs" and m1: "map_of kvs ''device_id'' = Some d"
    by (rule py_getitem_InrD)
  from assms(2,3,4) p have m2: "map_of kvs ''ts'' = Some t"
    and m3: "map_of kvs ''system'' = Some sy" and m4: "map_of kvs ''network'' = Some nw"
    by (auto split: option.splits)
  have "\<forall>k \<in> set [''device_id'', ''ts'', ''system'', ''network'']. k \<in> fst ` set kvs"
    using m1 m2 m3 m4 by (auto dest: map_of_key_mem)
  then have sc: "schema_check payload [''device_id'', ''ts'', ''system'', ''network''] = Inr ()"
    unfolding p by (rule schema_check_all_present)
  show ?thesis
  proof (cases "py_int t")
    case (Inl e1)
    with assms(1,2) sc show ?thesis
      by (simp add: metrics_def del: schema_check.simps)
  next
    case (Inr ts)
    with assms(6) have "py_int i = Inl e" by simp
    with Inr assms(1,2,5) sc show ?thesis
      by (simp add: metrics_def del: schema_check.simps)
  qed
qed

text \<open>A payload whose \<^verbatim>\<open>ts\<close> is the string \<^verbatim>\<open>soon\<close>: \<^verbatim>\<open>int\<close> raises \<^verbatim>\<open>ValueError\<close>.\<close>

theorem coercion_failure_stores_nothing_witness:
  "py_int (JStr ''soon'') = Inl ValueError
   \<and> metrics undefined
        [(''d0'', \<lparr>metrics_of = JObj [], last_seen = 1, interval = 10\<rparr>)]
        (Some (JObj [(''device_id'', JStr ''d1''), (''ts'', JStr ''soon''),
                     (''system'', JObj []), (''network'', JObj [])])) =
       (Inl ValueError, [(''d0'', \<lparr>metrics_of = JObj [], last_seen = 1, interval = 10\<rparr>)])"
proof -
  let ?p = "JObj [(''device_id'', JStr ''d1''), (''ts'', JStr ''soon''),
                  (''system'', JObj []), (''network'', JObj [])]"
  let ?devs = "[(''d0'', \<lparr>metrics_of = JObj [], last_seen = 1, interval = 10\<rparr>)]"
  have ios: "int_of_str ''soon'' = None"
    by (simp add: int_of_str_def strip_with_def int_space_def parse_nat_def digit_val_def)
  have bad: "py_int (JStr ''soon'') = Inl ValueError"
    by (simp add: ios)
  have "\<exists>e'. metrics undefined ?devs (Some ?p) = (Inl e', ?devs)"
    by (rule coercion_failure_stores_nothing[of ?p "JStr ''d1''" "JStr ''soon''" "JObj []" "JObj []"
          "JInt REPORT_INTERVAL_DEFAULT" ValueError])
       (simp_all add: ios)
  then obtain e' where r: "metrics undefined ?devs (Some ?p) = (Inl e', ?devs)" by blast
  have "metrics undefined ?devs (Some ?p) = (Inl ValueError, ?devs)"
    using r by (simp add: metrics_def ios)
  with bad show ?thesis by simp
qed

subsection \<open>Accepted submissions\<close>

text \<open>
  Claim C2 says that every payload with the four keys is stored so that a later read
  yields \<open>last_seen\<close> equal to \<^verbatim>\<open>ts\<close>. Four payloads with the four keys show otherwise.
  One whose \<^verbatim>\<open>ts\<close> is \<^verbatim>\<open>null\<close>, and one whose \<^verbatim>\<open>interval\<close> is \<^verbatim>\<open>null\<close>, are not stored:
  \<^verbatim>\<open>int(None)\<close> raises \<^verbatim>\<open>TypeError\<close> before the assignment, and a read of the store shows
  no device. One whose \<^verbatim>\<open>network\<close> is \<^verbatim>\<open>null\<close> is
  stored with status 200, and the read then raises \<^verbatim>\<open>AttributeError\<close> at
  \<^verbatim>\<open>netm.get("iface")\<close>. A payload of another device, with objects for \<^verbatim>\<open>system\<close> and
  \<^verbatim>\<open>network\<close>, sent to the store that holds that record, is stored with status 200, and
  the read raises all the same: \<^verbatim>\<open>build_rows\<close> reads every record.
\<close>

theorem submit_read_back_counterexample:
  "metrics undefined []
     (Some (JObj [(''device_id'', JStr ''d1''), (''ts'', JNull),
                  (''system'', JObj []), (''network'', JObj [])])) = (Inl TypeError, [])
   \<and> metrics undefined []
       (Some (JObj [(''device_id'', JStr ''d1''), (''ts'', JInt 100), (''interval'', JNull),
                    (''system'', JObj []), (''network'', JObj [])])) = (Inl TypeError, [])
   \<and> build_rows 130 [] = Inr ([], 130)
   \<and> metrics undefined []
       (Some (JObj [(''device_id'', JStr ''d1''), (''ts'', JInt 100),
                    (''system'', JObj []), (''network'', JNull)])) =
       (Inr \<lparr>status = 200, body = JObj [(''status'', JStr ''ok'')]\<rparr>,
        [(''d1'',
          \<lparr>metrics_of = JObj [(''device_id'', JStr ''d1''), (''ts'', JInt 100),
                              (''system'', JObj []), (''network'', JNull)],
           last_seen = 100, interval = 10\<rparr>)])
   \<and> build_rows 130
       [(''d1'',
         \<lparr>metrics_of = JObj [(''device_id'', JStr ''d1''), (''ts'', JInt 100),
                             (''system'', JObj []), (''network'', JNull)],
          last_seen = 100, interval = 10\<rparr>)] = Inl AttributeError
   \<and> metrics undefined
       [(''d1'',
         \<lparr>metrics_of = JObj [(''device_id'', JStr ''d1''), (''ts'', JInt 100),
                             (''system'', JObj []), (''network'', JNull)],
          last_seen = 100, interval = 10\<rparr>)]
       (Some (JObj [(''device_id'', JStr ''d2''), (''ts'', JInt 120),
                    (''system'', JObj []), (''network'', JObj [])])) =
       (Inr \<lparr>status = 200, body = JObj [(''status'', JStr ''ok'')]\<rparr>,
        [(''d1'',
          \<lparr>metrics_of = JObj [(''device_id'', JStr ''d1''), (''ts'', JInt 100),
                              (''system'', JObj []), (''network'', JNull)],
           last_seen = 100, interval = 10\<rparr>),
         (''d2'',
          \<lparr>metrics_of = JObj [(''device_id'', JStr ''d2''), (''ts'', JInt 120),
                              (''system'', JObj []), (''network'', JObj [])],
           last_seen = 120, interval = 10\<rparr>)])
   \<and> build_rows 130
       [(''d1'',
         \<lparr>metrics_of = JObj [(''device_id'', JStr ''d1''), (''ts'', JInt 100),
                             (''system'', JObj []), (''network'', JNull)],
          last_seen = 100, interval = 10\<rparr>),
        (''d2'',
         \<lparr>metrics_of = JObj [(''device_id'', JStr ''d2''), (''ts'', JInt 120),
                             (''system'', JObj []), (''network'', JObj [])],
          last_seen = 120, interval = 10\<rparr>)] = Inl AttributeError"
proof -
  have s: "sort_key fst
       [(''d1'',
         \<lparr>metrics_of = JObj [(''device_id'', JStr ''d1''), (''ts'', JInt 100),
                             (''system'', JObj []), (''network'', JNull)],
          last_seen = 100, interval = 10\<rparr>),
        (''d2'',
         \<lparr>metrics_of = JObj [(''device_id'', JStr ''d2''), (''ts'', JInt 120),
                             (''system'', JObj []), (''network'', JObj [])],
          last_seen = 120, interval = (10::int)\<rparr>)] =
       [(''d1'',
         \<lparr>metrics_of = JObj [(''device_id'', JStr ''d1''), (''ts'', JInt 100),
                             (''system'', JObj []), (''network'', JNull)],
          last_seen = 100, interval = 10\<rparr>),
        (''d2'',
         \<lparr>metrics_of = JObj [(''device_id'', JStr ''d2''), (''ts'', JInt 120),
                             (''system'', JObj []), (''network'', JObj [])],
          last_seen = 120, interval = 10\<rparr>)]"
    by code_simp
  show ?thesis
    unfolding build_rows_def s
    by (simp add: metrics_def jsonify_def build_row_def Let_def REPORT_INTERVAL_DEFAULT_def)
qed

text \<open>
  Claim C2, amended. When the payload holds the four keys, \<^verbatim>\<open>int(ts)\<close> succeeds, and
  \<^verbatim>\<open>int\<close> of the \<^verbatim>\<open>interval\<close> value (or of the default, when the key is absent) succeeds,
  \<^verbatim>\<open>metrics\<close> answers 200 and the store holds, under \<^verbatim>\<open>str(device_id)\<close>, a record with the
  payload, \<open>last_seen = int(ts)\<close> and \<open>interval = int(interval)\<close>. For a JSON integer
  these are the values themselves, and the interval is 10 when the key is absent.
  When moreover the values of \<^verbatim>\<open>system\<close> and \<^verbatim>\<open>network\<close> are objects and the store before
  the call could be read, every later read by \<^verbatim>\<open>build_rows\<close> returns, and lists the device
  with that \<open>last_seen\<close>, classified with that interval; the keys of the store being
  distinct, it is the only row of the device.
\<close>

theorem accepted_submission_read_back:
  assumes "py_getitem payload ''device_id'' = Inr d"
    and "py_getitem payload ''ts'' = Inr t"
    and "py_getitem payload ''system'' = Inr sy"
    and "py_getitem payload ''network'' = Inr nw"
    and "py_int t = Inr ts"
    and "py_get payload ''interval'' (JInt REPORT_INTERVAL_DEFAULT) = Inr i"
    and "py_int i = Inr iv"
  shows "\<exists>devs'. metrics repr devs (Some payload) =
             (Inr \<lparr>status = 200, body = JObj [(''status'', JStr ''ok'')]\<rparr>, devs')
           \<and> map_of devs' (py_str repr d) =
               Some \<lparr>metrics_of = payload, last_seen = ts, interval = iv\<rparr>
           \<and> (t = JInt n \<longrightarrow> ts = n)
           \<and> (i = JInt m \<longrightarrow> iv = m)
           \<and> (py_contains payload ''interval'' = Inr False \<longrightarrow> iv = 10)
           \<and> (\<forall>skvs nkvs now0 rows0 n0 now.
                 sy = JObj skvs \<and> nw = JObj nkvs \<and> build_rows now0 devs = Inr (rows0, n0) \<longrightarrow>
                 (\<exists>rows r. build_rows now devs' = Inr (rows, now) \<and> r \<in> set rows
                    \<and> row_device_id r = py_str repr d \<and> row_last_seen r = ts
                    \<and> row_online r = mark_online_state now ts iv
                    \<and> (distinct (map fst devs) \<longrightarrow>
                         (\<forall>r' \<in> set rows. row_device_id r' = py_str repr d \<longrightarrow> r' = r))))"
proof -
  let ?key = "py_str repr d"
  let ?rec = "\<lparr>metrics_of = payload, last_seen = ts, interval = iv\<rparr>"
  let ?devs' = "AList.update ?key ?rec devs"
  have acc: "metrics repr devs (Some payload) =
      (Inr \<lparr>status = 200, body = JObj [(''status'', JStr ''ok'')]\<rparr>, ?devs')"
    using assms by (rule metrics_accept)
  have look: "map_of ?devs' ?key = Some ?rec"
    by (simp add: update_conv')
  have tn: "t = JInt n \<longrightarrow> ts = n" using assms(5) by auto
  have im: "i = JInt m \<longrightarrow> iv = m" using assms(7) by auto
  have dflt: "py_contains payload ''interval'' = Inr False \<longrightarrow> iv = 10"
  proof
    assume a: "py_contains payload ''interval'' = Inr False"
    from assms(1) obtain kvs where p: "payload = JObj kvs" by (rule py_getitem_InrD)
    from a p have "map_of kvs ''interval'' = None"
      by (simp add: map_of_eq_None_iff)
    with assms(6) p have "i = JInt REPORT_INTERVAL_DEFAULT" by simp
    with assms(7) show "iv = 10" by (simp add: REPORT_INTERVAL_DEFAULT_def)
  qed
  have rows: "\<forall>skvs nkvs now0 rows0 n0 now.
      sy = JObj skvs \<and> nw = JObj nkvs \<and> build_rows now0 devs = Inr (rows0, n0) \<longrightarrow>
      (\<exists>rows r. build_rows now ?devs' = Inr (rows, now) \<and> r \<in> set rows
         \<and> row_device_id r = ?key \<and> row_last_seen r = ts
         \<and> row_online r = mark_online_state now ts iv
         \<and> (distinct (map fst devs) \<longrightarrow>
              (\<forall>r' \<in> set rows. row_device_id r' = ?key \<longrightarrow> r' = r)))"
  proof (intro allI impI)
    fix skvs nkvs now0 rows0 n0 now
    assume a: "sy = JObj skvs \<and> nw = JObj nkvs \<and> build_rows now0 devs = Inr (rows0, n0)"
    then have s: "py_getitem payload ''system'' = Inr (JObj skvs)"
      and n: "py_getitem payload ''network'' = Inr (JObj nkvs)"
      and b0: "build_rows now0 devs = Inr (rows0, n0)"
      using assms(3,4) by simp_all
    from build_row_stored[OF s n, of now ?key ts iv] obtain r
      where br: "build_row now (?key, ?rec) = Inr r" by blast
    from build_rows_after_update[OF b0 br] obtain rows
      where b: "build_rows now ?devs' = Inr (rows, now)" and mem: "r \<in> set rows"
        and uniq: "distinct (map fst devs) \<longrightarrow>
                     (\<forall>r' \<in> set rows. row_device_id r' = ?key \<longrightarrow> r' = r)"
      by blast
    from build_row_fields(1,2,3)[OF br] b mem uniq
    show "\<exists>rows r. build_rows now ?devs' = Inr (rows, now) \<and> r \<in> set rows
         \<and> row_device_id r = ?key \<and> row_last_seen r = ts
         \<and> row_online r = mark_online_state now ts iv
         \<and> (distinct (map fst devs) \<longrightarrow>
              (\<forall>r' \<in> set rows. row_device_id r' = ?key \<longrightarrow> r' = r))"
      by auto
  qed
  from acc look tn im dflt rows show ?thesis by blast
qed

text \<open>A payload with integer \<^verbatim>\<open>ts\<close> and \<^verbatim>\<open>interval\<close>, stored and read thirty seconds later.\<close>

theorem accepted_submission_read_back_witness:
  "metrics undefined []
     (Some (JObj [(''device_id'', JStr ''d1''), (''ts'', JInt 100), (''interval'', JInt 30),
                  (''system'', JObj [(''cpu_pct'', JFloat (Finite (25 / 2)))]),
                  (''network'', JObj [(''iface'', JStr ''eth0'')])])) =
     (Inr \<lparr>status = 200, body = JObj [(''status'', JStr ''ok'')]\<rparr>,
      [(''d1'',
        \<lparr>metrics_of =
           JObj [(''device_id'', JStr ''d1''), (''ts'', JInt 100), (''interval'', JInt 30),
                 (''system'', JObj [(''cpu_pct'', JFloat (Finite (25 / 2)))]),
                 (''network'', JObj [(''iface'', JStr ''eth0'')])],
         last_seen = 100, interval = 30\<rparr>)])
   \<and> build_rows 0 [] = Inr ([], 0)
   \<and> build_rows 130
       [(''d1'',
         \<lparr>metrics_of =
            JObj [(''device_id'', JStr ''d1''), (''ts'', JInt 100), (''interval'', JInt 30),
                  (''system'', JObj [(''cpu_pct'', JFloat (Finite (25 / 2)))]),
                  (''network'', JObj [(''iface'', JStr ''eth0'')])],
          last_seen = 100, interval = 30\<rparr>)] =
     Inr ([\<lparr>row_device_id = ''d1'', row_online = True, row_last_seen = 100,
            row_last_seen_ago = ''30s ago'', row_uptime_s = JNull,
            row_cpu_pct = JFloat (Finite (25 / 2)), row_mem_pct = JNull, row_disk_pct = JNull,
            row_loadavg = JNull, row_iface = JStr ''eth0'', row_ip = JNull, row_mac = JNull,
            row_rx_bytes = JNull, row_tx_bytes = JNull, row_rx_packets = JNull,
            row_tx_packets = JNull\<rparr>], 130)"
proof -
  let ?p = "JObj [(''device_id'', JStr ''d1''), (''ts'', JInt 100), (''interval'', JInt 30),
                  (''system'', JObj [(''cpu_pct'', JFloat (Finite (25 / 2)))]),
                  (''network'', JObj [(''iface'', JStr ''eth0'')])]"
  let ?rec = "\<lparr>metrics_of = ?p, last_seen = 100, interval = 30\<rparr>"
  let ?row = "\<lparr>row_device_id = ''d1'', row_online = True, row_last_seen = 100,
            row_last_seen_ago = ''30s ago'', row_uptime_s = JNull,
            row_cpu_pct = JFloat (Finite (25 / 2)), row_mem_pct = JNull, row_disk_pct = JNull,
            row_loadavg = JNull, row_iface = JStr ''eth0'', row_ip = JNull, row_mac = JNull,
            row_rx_bytes = JNull, row_tx_bytes = JNull, row_rx_packets = JNull,
            row_tx_packets = JNull\<rparr>"
  have h: "human_ago 30 = ''30s ago''" by code_simp
  have g1: "py_getitem ?p ''device_id'' = Inr (JStr ''d1'')" by simp
  have g2: "py_getitem ?p ''ts'' = Inr (JInt 100)" by simp
  have g3: "py_getitem ?p ''system'' = Inr (JObj [(''cpu_pct'', JFloat (Finite (25 / 2)))])" by simp
  have g4: "py_getitem ?p ''network'' = Inr (JObj [(''iface'', JStr ''eth0'')])" by simp
  have g5: "py_int (JInt 100) = Inr 100" by simp
  have g6: "py_get ?p ''interval'' (JInt REPORT_INTERVAL_DEFAULT) = Inr (JInt 30)" by simp
  have g7: "py_int (JInt 30) = Inr 30" by simp
  have e: "build_rows 0 [] = Inr ([], 0)" by (simp add: build_rows_def)
  from accepted_submission_read_back[OF g1 g2 g3 g4 g5 g6 g7, of undefined "[]" 100 30]
  obtain devs' where
    m: "metrics undefined [] (Some ?p) =
          (Inr \<lparr>status = 200, body = JObj [(''status'', JStr ''ok'')]\<rparr>, devs')"
    and rd: "\<forall>skvs nkvs now0 rows0 n0 now.
        JObj [(''cpu_pct'', JFloat (Finite (25 / 2)))] = JObj skvs
        \<and> JObj [(''iface'', JStr ''eth0'')] = JObj nkvs
        \<and> build_rows now0 [] = Inr (rows0, n0) \<longrightarrow>
        (\<exists>rows r. build_rows now devs' = Inr (rows, now) \<and> r \<in> set rows
           \<and> row_device_id r = py_str undefined (JStr ''d1'') \<and> row_last_seen r = 100
           \<and> row_online r = mark_online_state now 100 30
           \<and> (distinct (map fst ([] :: devices)) \<longrightarrow>
                (\<forall>r' \<in> set rows. row_device_id r' = py_str undefined (JStr ''d1'') \<longrightarrow> r' = r)))"
    by blast
  have d: "devs' = [(''d1'', ?rec)]"
    using m by (simp add: metrics_def jsonify_def)
  from rd e obtain rows where b: "build_rows 130 devs' = Inr (rows, 130)" by blast
  have "build_rows 130 [(''d1'', ?rec)] = Inr ([?row], 130)"
    using b unfolding d
    by (simp add: build_rows_def build_row_def Let_def lookup_def mark_online_state_def
        REPORT_INTERVAL_DEFAULT_def h)
  with m d e show ?thesis by simp
qed

subsection \<open>Replacement of a record\<close>

text \<open>
  Claim C6 says that a payload lacking the \<^verbatim>\<open>network\<close> object, sent again for a known
  device, replaces the record, so that the view has no network fields. The schema check
  rejects such a payload: the answer is 400, the record stays, and the view still shows
  the interface of the previous submission. A payload for the device with an empty
  \<^verbatim>\<open>network\<close> object is accepted; but when its \<^verbatim>\<open>system\<close> is \<^verbatim>\<open>null\<close>, or when the store
  holds a record of another device whose \<^verbatim>\<open>network\<close> is \<^verbatim>\<open>null\<close>, there is no view after
  the submission: \<^verbatim>\<open>build_rows\<close> raises \<^verbatim>\<open>AttributeError\<close>.
\<close>

theorem resubmit_without_network_counterexample:
  "metrics undefined
     [(''d1'',
       \<lparr>metrics_of =
          JObj [(''device_id'', JStr ''d1''), (''ts'', JInt 100), (''system'', JObj []),
                (''network'', JObj [(''iface'', JStr ''eth0'')])],
        last_seen = 100, interval = 10\<rparr>)]
     (Some (JObj [(''device_id'', JStr ''d1''), (''ts'', JInt 200), (''system'', JObj [])])) =
     (Inr \<lparr>status = 400, body = JObj [(''error'', JStr ''missing field: network'')]\<rparr>,
      [(''d1'',
       \<lparr>metrics_of =
          JObj [(''device_id'', JStr ''d1''), (''ts'', JInt 100), (''system'', JObj []),
                (''network'', JObj [(''iface'', JStr ''eth0'')])],
        last_seen = 100, interval = 10\<rparr>)])
   \<and> build_rows 200
       [(''d1'',
       \<lparr>metrics_of =
          JObj [(''device_id'', JStr ''d1''), (''ts'', JInt 100), (''system'', JObj []),
                (''network'', JObj [(''iface'', JStr ''eth0'')])],
        last_seen = 100, interval = 10\<rparr>)] =
     Inr ([\<lparr>row_device_id = ''d1'', row_online = False, row_last_seen = 100,
            row_last_seen_ago = ''1m ago'', row_uptime_s = JNull, row_cpu_pct = JNull,
            row_mem_pct = JNull, row_disk_pct = JNull, row_loadavg = JNull,
            row_iface = JStr ''eth0'', row_ip = JNull, row_mac = JNull, row_rx_bytes = JNull,
            row_tx_bytes = JNull, row_rx_packets = JNull, row_tx_packets = JNull\<rparr>], 200)
   \<and> metrics undefined
       [(''d1'',
       \<lparr>metrics_of =
          JObj [(''device_id'', JStr ''d1''), (''ts'', JInt 100), (''system'', JObj []),
                (''network'', JObj [(''iface'', JStr ''eth0'')])],
        last_seen = 100, interval = 10\<rparr>)]
       (Some (JObj [(''device_id'', JStr ''d1''), (''ts'', JInt 200), (''system'', JNull),
                  (''network'', JObj [])])) =
       (Inr \<lparr>status = 200, body = JObj [(''status'', JStr ''ok'')]\<rparr>,
        [(''d1'',
       \<lparr>metrics_of =
          JObj [(''device_id'', JStr ''d1''), (''ts'', JInt 200), (''system'', JNull),
                  (''network'', JObj [])],
        last_seen = 200, interval = 10\<rparr>)])
   \<and> build_rows 200
       [(''d1'',
       \<lparr>metrics_of =
          JObj [(''device_id'', JStr ''d1''), (''ts'', JInt 200), (''system'', JNull),
                  (''network'', JObj [])],
        last_seen = 200, interval = 10\<rparr>)] = Inl AttributeError
   \<and> metrics undefined
       [(''d0'',
       \<lparr>metrics_of =
          JObj [(''device_id'', JStr ''d0''), (''ts'', JInt 90), (''system'', JObj []),
                (''network'', JNull)],
        last_seen = 90, interval = 10\<rparr>),
      (''d1'',
       \<lparr>metrics_of =
          JObj [(''device_id'', JStr ''d1''), (''ts'', JInt 100), (''system'', JObj []),
                (''network'', JObj [(''iface'', JStr ''eth0'')])],
        last_seen = 100, interval = 10\<rparr>)]
       (Some (JObj [(''device_id'', JStr ''d1''), (''ts'', JInt 200), (''system'', JObj []),
                  (''network'', JObj [])])) =
       (Inr \<lparr>status = 200, body = JObj [(''status'', JStr ''ok'')]\<rparr>,
        [(''d0'',
       \<lparr>metrics_of =
          JObj [(''device_id'', JStr ''d0''), (''ts'', JInt 90), (''system'', JObj []),
                (''network'', JNull)],
        last_seen = 90, interval = 10\<rparr>),
      (''d1'',
       \<lparr>metrics_of =
          JObj [(''device_id'', JStr ''d1''), (''ts'', JInt 200), (''system'', JObj []),
                  (''network'', JObj [])],
        last_seen = 200, interval = 10\<rparr>)])
   \<and> build_rows 200
       [(''d0'',
       \<lparr>metrics_of =
          JObj [(''device_id'', JStr ''d0''), (''ts'', JInt 90), (''system'', JObj []),
                (''network'', JNull)],
        last_seen = 90, interval = 10\<rparr>),
      (''d1'',
       \<lparr>metrics_of =
          JObj [(''device_id'', JStr ''d1''), (''ts'', JInt 200), (''system'', JObj []),
                  (''network'', JObj [])],
        last_seen = 200, interval = 10\<rparr>)] = Inl AttributeError"
proof -
  have h: "human_ago 100 = ''1m ago''" by code_simp
  have s: "sort_key fst
       [(''d0'',
       \<lparr>metrics_of =
          JObj [(''device_id'', JStr ''d0''), (''ts'', JInt 90), (''system'', JObj []),
                (''network'', JNull)],
        last_seen = 90, interval = 10\<rparr>),
      (''d1'',
       \<lparr>metrics_of =
          JObj [(''device_id'', JStr ''d1''), (''ts'', JInt 200), (''system'', JObj []),
                  (''network'', JObj [])],
        last_seen = 200, interval = 10\<rparr>)] =
       [(''d0'',
       \<lparr>metrics_of =
          JObj [(''device_id'', JStr ''d0''), (''ts'', JInt 90), (''system'', JObj []),
                (''network'', JNull)],
        last_seen = 90, interval = 10\<rparr>),
      (''d1'',
       \<lparr>metrics_of =
          JObj [(''device_id'', JStr ''d1''), (''ts'', JInt 200), (''system'', JObj []),
                  (''network'', JObj [])],
        last_seen = 200, interval = 10\<rparr>)]"
    by code_simp
  show ?thesis
    unfolding build_rows_def s
    by (simp add: metrics_def jsonify_def build_row_def Let_def lookup_def
        mark_online_state_def REPORT_INTERVAL_DEFAULT_def h)
qed

text \<open>
  Claim C6, amended. Every accepted submission replaces the record of its device as a
  whole: the new store is the old one with the record under \<^verbatim>\<open>str(device_id)\<close> of the
  payload set to the payload, \<^verbatim>\<open>int(ts)\<close> and \<^verbatim>\<open>int(interval)\<close>, whatever the store held
  before (nothing of the previous record is merged in), and the records of the other
  devices are untouched. A payload without the key \<^verbatim>\<open>network\<close> is not accepted. When the
  payload has an empty \<^verbatim>\<open>network\<close> object and an object for \<^verbatim>\<open>system\<close>, and the store before
  the call could be read, every later read by \<^verbatim>\<open>build_rows\<close> returns and holds the row
  built from the new record alone, with \<^verbatim>\<open>None\<close> in the seven network fields; the keys of
  the store being distinct, it is the only row of the device.
\<close>

theorem accepted_submission_replaces:
  assumes "metrics repr devs (Some payload) = (Inr resp, devs')" and "status resp = 200"
  shows "\<exists>d t ts i iv.
           py_getitem payload ''device_id'' = Inr d
         \<and> py_getitem payload ''ts'' = Inr t \<and> py_int t = Inr ts
         \<and> py_get payload ''interval'' (JInt REPORT_INTERVAL_DEFAULT) = Inr i \<and> py_int i = Inr iv
         \<and> devs' = AList.update (py_str repr d)
                     \<lparr>metrics_of = payload, last_seen = ts, interval = iv\<rparr> devs
         \<and> map_of devs' (py_str repr d) =
             Some \<lparr>metrics_of = payload, last_seen = ts, interval = iv\<rparr>
         \<and> (\<forall>k. k \<noteq> py_str repr d \<longrightarrow> map_of devs' k = map_of devs k)
         \<and> (\<forall>skvs now0 rows0 n0 now.
               py_getitem payload ''system'' = Inr (JObj skvs)
               \<and> py_getitem payload ''network'' = Inr (JObj [])
               \<and> build_rows now0 devs = Inr (rows0, n0) \<longrightarrow>
               (\<exists>rows r. build_rows now devs' = Inr (rows, now) \<and> r \<in> set rows
                  \<and> build_row now (py_str repr d,
                       \<lparr>metrics_of = payload, last_seen = ts, interval = iv\<rparr>) = Inr r
                  \<and> row_device_id r = py_str repr d \<and> row_last_seen r = ts
                  \<and> row_iface r = JNull \<and> row_ip r = JNull \<and> row_mac r = JNull
                  \<and> row_rx_bytes r = JNull \<and> row_tx_bytes r = JNull
                  \<and> row_rx_packets r = JNull \<and> row_tx_packets r = JNull
                  \<and> (distinct (map fst devs) \<longrightarrow>
                       (\<forall>r' \<in> set rows. row_device_id r' = py_str repr d \<longrightarrow> r' = r))))"
proof -
  from metrics_okD[OF assms] obtain d t ts i iv where
    g1: "py_getitem payload ''device_id'' = Inr d"
    and g2: "py_getitem payload ''ts'' = Inr t" and g5: "py_int t = Inr ts"
    and g6: "py_get payload ''interval'' (JInt REPORT_INTERVAL_DEFAULT) = Inr i"
    and g7: "py_int i = Inr iv"
    and upd: "devs' = AList.update (py_str repr d)
                \<lparr>metrics_of = payload, last_seen = ts, interval = iv\<rparr> devs"
    by auto
  define key where "key = py_str repr d"
  define rec where "rec = \<lparr>metrics_of = payload, last_seen = ts, interval = iv\<rparr>"
  have upd': "devs' = AList.update key rec devs" using upd by (simp add: key_def rec_def)
  have look: "map_of devs' key = Some rec" by (simp add: upd' update_conv')
  have others: "\<forall>k. k \<noteq> key \<longrightarrow> map_of devs' k = map_of devs k"
    by (simp add: upd' update_conv')
  have view: "\<forall>skvs now0 rows0 n0 now.
               py_getitem payload ''system'' = Inr (JObj skvs)
               \<and> py_getitem payload ''network'' = Inr (JObj [])
               \<and> build_rows now0 devs = Inr (rows0, n0) \<longrightarrow>
               (\<exists>rows r. build_rows now devs' = Inr (rows, now) \<and> r \<in> set rows
                  \<and> build_row now (key, rec) = Inr r
                  \<and> row_device_id r = key \<and> row_last_seen r = ts
                  \<and> row_iface r = JNull \<and> row_ip r = JNull \<and> row_mac r = JNull
                  \<and> row_rx_bytes r = JNull \<and> row_tx_bytes r = JNull
                  \<and> row_rx_packets r = JNull \<and> row_tx_packets r = JNull
                  \<and> (distinct (map fst devs) \<longrightarrow>
                       (\<forall>r' \<in> set rows. row_device_id r' = key \<longrightarrow> r' = r)))"
  proof (intro allI impI)
    fix skvs now0 rows0 n0 now
    assume a: "py_getitem payload ''system'' = Inr (JObj skvs)
               \<and> py_getitem payload ''network'' = Inr (JObj [])
               \<and> build_rows now0 devs = Inr (rows0, n0)"
    from a have s: "py_getitem payload ''system'' = Inr (JObj skvs)" by (rule conjunct1)
    from a have n: "py_getitem payload ''network'' = Inr (JObj [])" by (simp only:)
    from a have b0: "build_rows now0 devs = Inr (rows0, n0)" by (simp only:)
    from build_row_stored[OF s n, of now key ts iv] obtain r
      where br: "build_row now (key, rec) = Inr r" unfolding rec_def by blast
    have n': "py_getitem (metrics_of rec) ''network'' = Inr (JObj [])"
      using n by (simp add: rec_def)
    have ls: "last_seen rec = ts" by (simp add: rec_def)
    from build_rows_after_update[OF b0 br] obtain rows
      where b: "build_rows now (AList.update key rec devs) = Inr (rows, now)"
        and mem: "r \<in> set rows"
        and uniq: "distinct (map fst devs) \<longrightarrow>
                     (\<forall>r' \<in> set rows. row_device_id r' = key \<longrightarrow> r' = r)"
      by blast
    have b': "build_rows now devs' = Inr (rows, now)" using b by (simp only: upd')
    have f1: "row_device_id r = key" using build_row_fields(1)[OF br] .
    have f2: "row_last_seen r = ts" using build_row_fields(2)[OF br] ls by simp
    from build_row_no_network[OF br n']
    have n1: "row_iface r = JNull" and n2: "row_ip r = JNull" and n3: "row_mac r = JNull"
      and n4: "row_rx_bytes r = JNull" and n5: "row_tx_bytes r = JNull"
      and n6: "row_rx_packets r = JNull" and n7: "row_tx_packets r = JNull"
      by simp_all
    have "build_rows now devs' = Inr (rows, now) \<and> r \<in> set rows
                  \<and> build_row now (key, rec) = Inr r
                  \<and> row_device_id r = key \<and> row_last_seen r = ts
                  \<and> row_iface r = JNull \<and> row_ip r = JNull \<and> row_mac r = JNull
                  \<and> row_rx_bytes r = JNull \<and> row_tx_bytes r = JNull
                  \<and> row_rx_packets r = JNull \<and> row_tx_packets r = JNull
                  \<and> (distinct (map fst devs) \<longrightarrow>
                       (\<forall>r' \<in> set rows. row_device_id r' = key \<longrightarrow> r' = r))"
      by (intro conjI) (rule b' mem br f1 f2 n1 n2 n3 n4 n5 n6 n7 uniq)+
    then show "\<exists>rows r. build_rows now devs' = Inr (rows, now) \<and> r \<in> set rows
                  \<and> build_row now (key, rec) = Inr r
                  \<and> row_device_id r = key \<and> row_last_seen r = ts
                  \<and> row_iface r = JNull \<and> row_ip r = JNull \<and> row_mac r = JNull
                  \<and> row_rx_bytes r = JNull \<and> row_tx_bytes r = JNull
                  \<and> row_rx_packets r = JNull \<and> row_tx_packets r = JNull
                  \<and> (distinct (map fst devs) \<longrightarrow>
                       (\<forall>r' \<in> set rows. row_device_id r' = key \<longrightarrow> r' = r))"
      by (rule_tac x = rows in exI, rule_tac x = r in exI)
  qed
  have "py_getitem payload ''device_id'' = Inr d
         \<and> py_getitem payload ''ts'' = Inr t \<and> py_int t = Inr ts
         \<and> py_get payload ''interval'' (JInt REPORT_INTERVAL_DEFAULT) = Inr i \<and> py_int i = Inr iv
         \<and> devs' = AList.update key rec devs
         \<and> map_of devs' key = Some rec
         \<and> (\<forall>k. k \<noteq> key \<longrightarrow> map_of devs' k = map_of devs k)
         \<and> (\<forall>skvs now0 rows0 n0 now.
               py_getitem payload ''system'' = Inr (JObj skvs)
               \<and> py_getitem payload ''network'' = Inr (JObj [])
               \<and> build_rows now0 devs = Inr (rows0, n0) \<longrightarrow>
               (\<exists>rows r. build_rows now devs' = Inr (rows, now) \<and> r \<in> set rows
                  \<and> build_row now (key, rec) = Inr r
                  \<and> row_device_id r = key \<and> row_last_seen r = ts
                  \<and> row_iface r = JNull \<and> row_ip r = JNull \<and> row_mac r = JNull
                  \<and> row_rx_bytes r = JNull \<and> row_tx_bytes r = JNull
                  \<and> row_rx_packets r = JNull \<and> row_tx_packets r = JNull
                  \<and> (distinct (map fst devs) \<longrightarrow>
                       (\<forall>r' \<in> set rows. row_device_id r' = key \<longrightarrow> r' = r))))"
    by (intro conjI) (rule g1 g2 g5 g6 g7 upd' look others view)+
  then show ?thesis
    unfolding key_def rec_def
    by (rule_tac x = d in exI, rule_tac x = t in exI, rule_tac x = ts in exI,
        rule_tac x = i in exI, rule_tac x = iv in exI)
qed

text \<open>The device of the counterexample, sent again with an empty \<^verbatim>\<open>network\<close> object.\<close>

theorem accepted_submission_replaces_witness:
  "build_rows 100
     [(''d1'',
       \<lparr>metrics_of =
          JObj [(''device_id'', JStr ''d1''), (''ts'', JInt 100), (''system'', JObj []),
                (''network'', JObj [(''iface'', JStr ''eth0'')])],
        last_seen = 100, interval = 10\<rparr>)] =
     Inr ([\<lparr>row_device_id = ''d1'', row_online = True, row_last_seen = 100,
            row_last_seen_ago = ''0s ago'', row_uptime_s = JNull, row_cpu_pct = JNull,
            row_mem_pct = JNull, row_disk_pct = JNull, row_loadavg = JNull,
            row_iface = JStr ''eth0'', row_ip = JNull, row_mac = JNull, row_rx_bytes = JNull,
            row_tx_bytes = JNull, row_rx_packets = JNull, row_tx_packets = JNull\<rparr>], 100)
   \<and> metrics undefined
     [(''d1'',
       \<lparr>metrics_of =
          JObj [(''device_id'', JStr ''d1''), (''ts'', JInt 100), (''system'', JObj []),
                (''network'', JObj [(''iface'', JStr ''eth0'')])],
        last_seen = 100, interval = 10\<rparr>)]
     (Some (JObj [(''device_id'', JStr ''d1''), (''ts'', JInt 200), (''system'', JObj []),
                  (''network'', JObj [])])) =
     (Inr \<lparr>status = 200, body = JObj [(''status'', JStr ''ok'')]\<rparr>,
      [(''d1'',
       \<lparr>metrics_of =
          JObj [(''device_id'', JStr ''d1''), (''ts'', JInt 200), (''system'', JObj []),
                  (''network'', JObj [])],
        last_seen = 200, interval = 10\<rparr>)])
   \<and> build_rows 200
       [(''d1'',
       \<lparr>metrics_of =
          JObj [(''device_id'', JStr ''d1''), (''ts'', JInt 200), (''system'', JObj []),
                  (''network'', JObj [])],
        last_seen = 200, interval = 10\<rparr>)] =
     Inr ([\<lparr>row_device_id = ''d1'', row_online = True, row_last_seen = 200,
            row_last_seen_ago = ''0s ago'', row_uptime_s = JNull, row_cpu_pct = JNull,
            row_mem_pct = JNull, row_disk_pct = JNull, row_loadavg = JNull,
            row_iface = JNull, row_ip = JNull, row_mac = JNull, row_rx_bytes = JNull,
            row_tx_bytes = JNull, row_rx_packets = JNull, row_tx_packets = JNull\<rparr>], 200)"
proof -
  let ?old = "[(''d1'',
       \<lparr>metrics_of =
          JObj [(''device_id'', JStr ''d1''), (''ts'', JInt 100), (''system'', JObj []),
                (''network'', JObj [(''iface'', JStr ''eth0'')])],
        last_seen = 100, interval = 10\<rparr>)]"
  let ?p = "JObj [(''device_id'', JStr ''d1''), (''ts'', JInt 200), (''system'', JObj []),
                  (''network'', JObj [])]"
  let ?ok = "\<lparr>status = 200, body = JObj [(''status'', JStr ''ok'')]\<rparr>"
  let ?new = "[(''d1'', \<lparr>metrics_of = ?p, last_seen = 200, interval = 10\<rparr>)]"
  have h: "human_ago 0 = ''0s ago''" by code_simp
  have b0: "build_rows 100 ?old =
     Inr ([\<lparr>row_device_id = ''d1'', row_online = True, row_last_seen = 100,
            row_last_seen_ago = ''0s ago'', row_uptime_s = JNull, row_cpu_pct = JNull,
            row_mem_pct = JNull, row_disk_pct = JNull, row_loadavg = JNull,
            row_iface = JStr ''eth0'', row_ip = JNull, row_mac = JNull, row_rx_bytes = JNull,
            row_tx_bytes = JNull, row_rx_packets = JNull, row_tx_packets = JNull\<rparr>], 100)"
    by (simp add: build_rows_def build_row_def Let_def lookup_def mark_online_state_def
        REPORT_INTERVAL_DEFAULT_def h)
  have m: "metrics undefined ?old (Some ?p) = (Inr ?ok, ?new)"
    by (simp add: metrics_def jsonify_def Let_def REPORT_INTERVAL_DEFAULT_def)
  have s: "status ?ok = 200" by simp
  have gs: "py_getitem ?p ''system'' = Inr (JObj [])" by simp
  have gn: "py_getitem ?p ''network'' = Inr (JObj [])" by simp
  have ev: "build_rows 200 ?new =
     Inr ([\<lparr>row_device_id = ''d1'', row_online = True, row_last_seen = 200,
            row_last_seen_ago = ''0s ago'', row_uptime_s = JNull, row_cpu_pct = JNull,
            row_mem_pct = JNull, row_disk_pct = JNull, row_loadavg = JNull,
            row_iface = JNull, row_ip = JNull, row_mac = JNull, row_rx_bytes = JNull,
            row_tx_bytes = JNull, row_rx_packets = JNull, row_tx_packets = JNull\<rparr>], 200)"
    by (simp add: build_rows_def build_row_def Let_def lookup_def mark_online_state_def
        REPORT_INTERVAL_DEFAULT_def h)
  from accepted_submission_replaces[OF m s] obtain d t ts i iv where
    view: "\<forall>skvs now0 rows0 n0 now.
               py_getitem ?p ''system'' = Inr (JObj skvs)
               \<and> py_getitem ?p ''network'' = Inr (JObj [])
               \<and> build_rows now0 ?old = Inr (rows0, n0) \<longrightarrow>
               (\<exists>rows r. build_rows now ?new = Inr (rows, now) \<and> r \<in> set rows
                  \<and> build_row now (py_str undefined d,
                       \<lparr>metrics_of = ?p, last_seen = ts, interval = iv\<rparr>) = Inr r
                  \<and> row_device_id r = py_str undefined d \<and> row_last_seen r = ts
                  \<and> row_iface r = JNull \<and> row_ip r = JNull \<and> row_mac r = JNull
                  \<and> row_rx_bytes r = JNull \<and> row_tx_bytes r = JNull
                  \<and> row_rx_packets r = JNull \<and> row_tx_packets r = JNull
                  \<and> (distinct (map fst ?old) \<longrightarrow>
                       (\<forall>r' \<in> set rows. row_device_id r' = py_str undefined d \<longrightarrow> r' = r)))"
    by (elim exE conjE) (rule that)
  note v = view[rule_format, of "[]" 100 "[\<lparr>row_device_id = ''d1'', row_online = True, row_last_seen = 100,
            row_last_seen_ago = ''0s ago'', row_uptime_s = JNull, row_cpu_pct = JNull,
            row_mem_pct = JNull, row_disk_pct = JNull, row_loadavg = JNull,
            row_iface = JStr ''eth0'', row_ip = JNull, row_mac = JNull, row_rx_bytes = JNull,
            row_tx_bytes = JNull, row_rx_packets = JNull, row_tx_packets = JNull\<rparr>]" 100 200]
  from v[OF conjI[OF gs conjI[OF gn b0]]] obtain rows r
    where b: "build_rows 200 ?new = Inr (rows, 200)" and mem: "r \<in> set rows"
      and f: "row_iface r = JNull"
    by (elim exE conjE) (rule that)
  from b ev have "rows = [\<lparr>row_device_id = ''d1'', row_online = True, row_last_seen = 200,
            row_last_seen_ago = ''0s ago'', row_uptime_s = JNull, row_cpu_pct = JNull,
            row_mem_pct = JNull, row_disk_pct = JNull, row_loadavg = JNull,
            row_iface = JNull, row_ip = JNull, row_mac = JNull, row_rx_bytes = JNull,
            row_tx_bytes = JNull, row_rx_packets = JNull, row_tx_packets = JNull\<rparr>]" by simp
  with mem f have "build_rows 200 ?new =
     Inr ([\<lparr>row_device_id = ''d1'', row_online = True, row_last_seen = 200,
            row_last_seen_ago = ''0s ago'', row_uptime_s = JNull, row_cpu_pct = JNull,
            row_mem_pct = JNull, row_disk_pct = JNull, row_loadavg = JNull,
            row_iface = JNull, row_ip = JNull, row_mac = JNull, row_rx_bytes = JNull,
            row_tx_bytes = JNull, row_rx_packets = JNull, row_tx_packets = JNull\<rparr>], 200)"
    using ev by simp
  with b0 m show ?thesis by simp
qed

section \<open>Properties of the agent\<close>

subsection \<open>Retries\<close>

text \<open>
  Claim C4. When the first send of a pass fails with a transport error, the agent
  retries at most three times, sleeping 2, 4 and 8 seconds before the first, second and
  third retry; every retry sends the payload that was sampled at the start of the pass
  (the same value, so its timestamp is the old one); the retries stop at the first one
  that is delivered. When all three fail, the pass is exactly three retries in that
  order. The trace of the pass is given for every environment.
\<close>

theorem retry_episode:
  assumes "collect (samples s) = Inr p" and "net (posts s) = TransportError"
  shows "\<exists>s'. loop_body collect net iv s = Inr s' \<and>
           trace s' = trace s @ [Sample p, Send p TransportError] @
             (if net (posts s + 1) = Delivered then [Sleep 2, Send p Delivered]
              else if net (posts s + 2) = Delivered then
                [Sleep 2, Send p (net (posts s + 1)), Sleep 4, Send p Delivered]
              else
                [Sleep 2, Send p (net (posts s + 1)), Sleep 4, Send p (net (posts s + 2)),
                 Sleep 8, Send p (net (posts s + 3))])"
  using assms
  by (auto simp: loop_body_def post_json_def emit_def Let_def eval_nat_numeral split: outcome.splits)

text \<open>Every send fails with a transport error: three retries after 2, 4 and 8 seconds.\<close>

theorem retry_episode_witness:
  "loop_body Inr (\<lambda>k. TransportError) 10 \<lparr>trace = [], posts = 0, samples = 0\<rparr> =
     Inr \<lparr>trace = [Sample (0::nat), Send 0 TransportError, Sleep 2, Send 0 TransportError,
                   Sleep 4, Send 0 TransportError, Sleep 8, Send 0 TransportError],
          posts = 4, samples = 1\<rparr>"
proof -
  let ?s = "\<lparr>trace = [], posts = 0, samples = 0\<rparr> :: nat agent"
  have c: "Inr (samples ?s) = (Inr 0 :: py_exc + nat)" by simp
  have n: "(\<lambda>k. TransportError) (posts ?s) = TransportError" by simp
  from retry_episode[of Inr ?s 0 "\<lambda>k. TransportError" 10, OF c n] obtain s'
    where l: "loop_body Inr (\<lambda>k. TransportError) 10 ?s = Inr s'"
      and t: "trace s' = [Sample 0, Send 0 TransportError, Sleep 2, Send 0 TransportError,
                   Sleep 4, Send 0 TransportError, Sleep 8, Send 0 TransportError]"
    by auto
  have "loop_body Inr (\<lambda>k. TransportError) 10 ?s =
     Inr \<lparr>trace = [Sample (0::nat), Send 0 TransportError, Sleep 2, Send 0 TransportError,
                   Sleep 4, Send 0 TransportError, Sleep 8, Send 0 TransportError],
          posts = 4, samples = 1\<rparr>"
    by (simp add: loop_body_def post_json_def emit_def Let_def)
  with l t show ?thesis by simp
qed

subsection \<open>After the retries\<close>

text \<open>
  Claim C5 says that a full-interval sleep follows every retry episode. The handler of
  \<^verbatim>\<open>HTTPError\<close> and \<^verbatim>\<open>URLError\<close> ends with the \<^verbatim>\<open>for\<close> loop: no \<^verbatim>\<open>time.sleep(interval)\<close> follows
  it, while the two other branches of the \<^verbatim>\<open>try\<close> both sleep. Two passes with interval
  10 are evaluated: when the first retry is delivered, and when no send is, the event
  after the last send of the first pass is the second sample, with no sleep between.
  When every send is delivered, or fails with another exception, each pass ends with
  the sleep of 10 seconds.
\<close>

theorem no_sleep_after_retry:
  "main Inr (\<lambda>k. if k = 0 then TransportError else Delivered) 10 2 =
     Inr \<lparr>trace = [Sample (0::nat), Send 0 TransportError, Sleep 2, Send 0 Delivered,
                   Sample 1, Send 1 Delivered, Sleep 10],
          posts = 3, samples = 2\<rparr>
   \<and> main Inr (\<lambda>k. TransportError) 10 2 =
     Inr \<lparr>trace = [Sample (0::nat), Send 0 TransportError, Sleep 2, Send 0 TransportError,
                   Sleep 4, Send 0 TransportError, Sleep 8, Send 0 TransportError,
                   Sample 1, Send 1 TransportError, Sleep 2, Send 1 TransportError,
                   Sleep 4, Send 1 TransportError, Sleep 8, Send 1 TransportError],
          posts = 8, samples = 2\<rparr>
   \<and> main Inr (\<lambda>k. Delivered) 10 2 =
     Inr \<lparr>trace = [Sample (0::nat), Send 0 Delivered, Sleep 10, Sample 1, Send 1 Delivered, Sleep 10],
          posts = 2, samples = 2\<rparr>
   \<and> main Inr (\<lambda>k. OtherError) 10 2 =
     Inr \<lparr>trace = [Sample (0::nat), Send 0 OtherError, Sleep 10, Sample 1, Send 1 OtherError, Sleep 10],
          posts = 2, samples = 2\<rparr>"
  by (simp add: main_def numeral_2_eq_2 loop_body_def post_json_def emit_def Let_def)

subsection \<open>Network probes\<close>

text \<open>
  Claim C9 says that no network probe raises. \<open>default_iface\<close>, \<open>ip_of\<close> and \<open>mac_of\<close>
  return a string in every environment: each catches every exception, or parses
  nothing. \<open>nic_stats\<close> returns four zeros when the interface is empty, and when the
  counter files cannot be read; but it applies \<^verbatim>\<open>int\<close> to the text of a file outside any
  \<^verbatim>\<open>try\<close>, and raises \<^verbatim>\<open>ValueError\<close> when a counter file reads as text that is no integer,
  here the empty text.
\<close>

theorem nic_stats_raises:
  "nic_stats fs [] = Inr (0, 0, 0, 0)
   \<and> nic_stats (\<lambda>path. None) ''eth0'' = Inr (0, 0, 0, 0)
   \<and> nic_stats (\<lambda>path. if path = ''/sys/class/net/eth0/statistics/rx_bytes'' then Some [] else None)
        ''eth0'' = Inl ValueError"
  by (simp add: nic_stats_def read_counter_def read_def py_strip_def strip_with_def
      int_of_str_def int_space_def parse_nat_def digit_val_def)

subsection \<open>CPU percentage\<close>


























































end
